theory Spec2Isabelle
  imports Main "HOL-Library.Sublist"
begin

section \<open>JavaScript values as the services see them\<close>

text \<open>
  The services are duck-typed: a tool call, a tool result and a parsed model payload are
  whatever \<^verbatim>\<open>JSON.parse\<close> returned. A parsed value is a \<open>json\<close>; the JavaScript
  value \<^verbatim>\<open>undefined\<close> is \<open>None\<close> of \<open>json option\<close>. Numbers are integers here (only
  their sign and their being zero are ever inspected). An object is an association list,
  the first binding of a key being the property's value. A string is the list of the bytes
  of its UTF-8 encoding.

  The debug logger (\<^verbatim>\<open>src/utils/debug.js\<close>, whose switches are all on) and the console
  write text and return nothing. Their calls are left out where they only write; they are
  kept, each where it occurs, where the call can throw on a value that the model's output
  or the calendar supplies: the name written into the validator's error
  (\<^verbatim>\<open>parseToolResponse\<close>), the \<^verbatim>\<open>map\<close> over the tool calls in \<^verbatim>\<open>logToolCalls\<close> and the
  name written per tool call (\<^verbatim>\<open>processEventMessage\<close>), the lines written per listed event
  (\<^verbatim>\<open>getEvents\<close>), and the second parse of the arguments (\<^verbatim>\<open>processMessage\<close>). The
  tool server also writes the tool name and the event identifier it received into console
  lines before it acts on them (lines 609, 722 and 773 of its file); those lines
  are left out: a name or an identifier that is a string is written as it is.
\<close>

datatype json =
    JNull
  | JBool bool
  | JNum int
  | JStr string
  | JArr "json list"
  | JObj "(string \<times> json) list"

datatype js_error = TypeError string | SyntaxError string | RangeError string | Error string

text \<open>The \<^verbatim>\<open>message\<close> property of a thrown error.\<close>

fun message :: "js_error \<Rightarrow> string" where
  "message (TypeError m) = m"
| "message (SyntaxError m) = m"
| "message (RangeError m) = m"
| "message (Error m) = m"

text \<open>Truthiness of a value (\<^verbatim>\<open>!v\<close> is its negation).\<close>

fun truthy :: "json option \<Rightarrow> bool" where
  "truthy None = False"
| "truthy (Some JNull) = False"
| "truthy (Some (JBool b)) = b"
| "truthy (Some (JNum n)) = (n \<noteq> 0)"
| "truthy (Some (JStr s)) = (s \<noteq> [])"
| "truthy (Some (JArr _)) = True"
| "truthy (Some (JObj _)) = True"

text \<open>
  Property access \<^verbatim>\<open>v.key\<close> for the keys the services read (\<^verbatim>\<open>name\<close>, \<^verbatim>\<open>arguments\<close>,
  \<^verbatim>\<open>error\<close>, \<^verbatim>\<open>content\<close>, \<^verbatim>\<open>text\<close>, \<^verbatim>\<open>success\<close>, ...): on \<^verbatim>\<open>null\<close> and
  \<^verbatim>\<open>undefined\<close> it throws a TypeError, on an object it is the own property, on any other
  value it is \<^verbatim>\<open>undefined\<close> (none of these keys is a built-in property of a string, a
  number, a boolean or an array).
\<close>

fun get_prop :: "json option \<Rightarrow> string \<Rightarrow> js_error + json option" where
  "get_prop None k = Inl (TypeError ''Cannot read properties of undefined'')"
| "get_prop (Some JNull) k = Inl (TypeError ''Cannot read properties of null'')"
| "get_prop (Some (JObj kvs)) k = Inr (map_of kvs k)"
| "get_prop (Some _) k = Inr None"

text \<open>Sequencing of computations that may throw: the first error wins.\<close>

definition bindE :: "'e + 'a \<Rightarrow> ('a \<Rightarrow> 'e + 'b) \<Rightarrow> 'e + 'b" where
  "bindE m f = (case m of Inl e \<Rightarrow> Inl e | Inr x \<Rightarrow> f x)"

text \<open>\<^verbatim>\<open>a || b\<close> with a constant right operand.\<close>

definition or_else :: "json option \<Rightarrow> json \<Rightarrow> json" where
  "or_else a b = (if truthy a then the a else b)"

text \<open>Decimal digits of a natural number (\<^verbatim>\<open>String(i)\<close>, and numbers in template literals).\<close>

function show_nat :: "nat \<Rightarrow> string" where
  "show_nat n = (if n < 10 then [char_of (48 + n)]
                 else show_nat (n div 10) @ [char_of (48 + n mod 10)])"
  by pat_completeness auto
termination
  by (relation "measure id") auto

declare show_nat.simps [simp del]

text \<open>
  What the platform provides and the repository only calls: \<^verbatim>\<open>JSON.parse\<close> and
  \<^verbatim>\<open>JSON.stringify\<close>, the coercions of the language (\<open>ToNumber\<close> with \<open>None\<close> for NaN,
  \<open>ToString\<close> on values that are not strings; both can throw on an object whose
  \<^verbatim>\<open>toString\<close> is not callable), \<^verbatim>\<open>new Date(v).toLocaleString()\<close>, and the string parser
  of moment-timezone (\<^verbatim>\<open>moment.tz(str, zone)\<close>, \<open>None\<close> for an invalid moment, else the
  instant in milliseconds since the epoch). They are parameters of the model, and so is
  what only the Unicode tables and the zone database know:
  \<^item> \<open>String_toLowerCase\<close> is \<^verbatim>\<open>String.prototype.toLowerCase\<close> on a string that holds a
    character outside ASCII;
  \<^item> \<open>updateOffset\<close> is moment-timezone's \<^verbatim>\<open>updateOffset(mom, true)\<close>, the last step of
    \<^verbatim>\<open>startOf\<close>, \<^verbatim>\<open>endOf\<close> and of adding days: from the local clock reading a moment
    has just been given (in milliseconds) and the UTC offset it had (in minutes), the
    reading and the offset it has under the rules of its zone;
  \<^item> \<open>LocalTZA\<close> is the abstract operation of that name in ECMAScript, for the zone of
    the process: the offset of local time from UTC in milliseconds, at an instant
    (\<open>True\<close>) or at a local clock reading (\<open>False\<close>).
\<close>

record platform =
  JSON_parse :: "string \<Rightarrow> js_error + json"
  JSON_stringify :: "json \<Rightarrow> string"
  ToNumber :: "json \<Rightarrow> js_error + int option"
  ToString :: "json option \<Rightarrow> js_error + string"
  toLocaleString :: "json option \<Rightarrow> js_error + string"
  moment_tz :: "string \<Rightarrow> int option"
  String_toLowerCase :: "string \<Rightarrow> string"
  updateOffset :: "int \<times> int \<Rightarrow> int \<times> int"
  LocalTZA :: "int \<Rightarrow> bool \<Rightarrow> int"

text \<open>A value inside a template literal: a string is itself, anything else is coerced.\<close>

fun template :: "platform \<Rightarrow> json option \<Rightarrow> js_error + string" where
  "template P (Some (JStr s)) = Inr s"
| "template P v = ToString P v"

text \<open>\<^verbatim>\<open>v > 0\<close> for a value or \<^verbatim>\<open>undefined\<close>, and \<^verbatim>\<open>i < v\<close> for a loop index.\<close>

fun gt_zero :: "platform \<Rightarrow> json option \<Rightarrow> js_error + bool" where
  "gt_zero P None = Inr False"
| "gt_zero P (Some (JNum n)) = Inr (0 < n)"
| "gt_zero P (Some v) =
     bindE (ToNumber P v) (\<lambda>r. Inr (case r of None \<Rightarrow> False | Some n \<Rightarrow> 0 < n))"

fun bound_of :: "platform \<Rightarrow> json option \<Rightarrow> js_error + nat" where
  "bound_of P None = Inr 0"
| "bound_of P (Some (JNum n)) = Inr (nat n)"
| "bound_of P (Some v) =
     bindE (ToNumber P v) (\<lambda>r. Inr (case r of None \<Rightarrow> 0 | Some n \<Rightarrow> nat n))"

text \<open>\<^verbatim>\<open>v.length\<close> and \<^verbatim>\<open>v[i]\<close> on a value that is not \<^verbatim>\<open>null\<close>.\<close>

fun js_length :: "json \<Rightarrow> json option" where
  "js_length (JArr xs) = Some (JNum (int (length xs)))"
| "js_length (JStr s) = Some (JNum (int (length s)))"
| "js_length (JObj kvs) = map_of kvs ''length''"
| "js_length _ = None"

fun js_index :: "json \<Rightarrow> nat \<Rightarrow> json option" where
  "js_index (JArr xs) i = (if i < length xs then Some (xs ! i) else None)"
| "js_index (JStr s) i = (if i < length s then Some (JStr [s ! i]) else None)"
| "js_index (JObj kvs) i = map_of kvs (show_nat i)"
| "js_index _ i = None"

text \<open>\<^verbatim>\<open>xs.join(sep)\<close> on an array of strings.\<close>

fun join :: "string \<Rightarrow> string list \<Rightarrow> string" where
  "join sep [] = []"
| "join sep [x] = x"
| "join sep (x # y # ys) = x @ sep @ join sep (y # ys)"

section \<open>Tool-call validation in \<^verbatim>\<open>MCPLLMService.parseToolResponse\<close>\<close>

definition validToolNames :: "string list" where
  "validToolNames = [''list_calendar_events'', ''create_calendar_event'',
     ''update_calendar_event'', ''delete_calendar_event'', ''search_calendar_events'']"

text \<open>\<^verbatim>\<open>validToolNames.includes(v)\<close>: strict equality with one of the five strings.\<close>

fun includes_name :: "string list \<Rightarrow> json option \<Rightarrow> bool" where
  "includes_name names (Some (JStr s)) = (s \<in> set names)"
| "includes_name names _ = False"

text \<open>\<^verbatim>\<open>xs.splice(i, 1)\<close> for an index inside the array.\<close>

definition splice1 :: "nat \<Rightarrow> 'a list \<Rightarrow> 'a list" where
  "splice1 i xs = take i xs @ drop (Suc i) xs"

text \<open>
  The validation loop (source lines 296 to 312), over the array it mutates:
  \<^verbatim>\<open>
  for (let i = 0; i < result.toolCalls.length; i++) {
    const toolCall = result.toolCalls[i];
    if (!toolCall.name || !toolCall.arguments) { logError(...); continue; }
    if (!validToolNames.includes(toolCall.name)) {
      logError(...); result.toolCalls.splice(i, 1); i--;
    }
  }
  \<close>
  A \<^verbatim>\<open>null\<close> element makes \<^verbatim>\<open>toolCall.name\<close> throw. The second \<^verbatim>\<open>logError\<close> is
  \<^verbatim>\<open>debug.logError('Tool-Validation', new Error(`Unknown tool "${toolCall.name}" at index
  ${i}. ...`), { toolCall })\<close> (line 307): the name is written into the template literal
  before the splice, which throws when the name has no string conversion. After a splice
  the index is decremented and then incremented by the loop header, so the same index is
  visited again.
\<close>

function validate_loop :: "platform \<Rightarrow> nat \<Rightarrow> json list \<Rightarrow> js_error + json list" where
  "validate_loop P i xs =
     (if i < length xs then
        (case get_prop (Some (xs ! i)) ''name'' of
           Inl e \<Rightarrow> Inl e
         | Inr nm \<Rightarrow>
            (case get_prop (Some (xs ! i)) ''arguments'' of
               Inl e \<Rightarrow> Inl e
             | Inr ar \<Rightarrow>
                 if \<not> truthy nm \<or> \<not> truthy ar then validate_loop P (Suc i) xs
                 else if \<not> includes_name validToolNames nm
                   then (case template P nm of
                           Inl e \<Rightarrow> Inl e
                         | Inr unknown \<Rightarrow> validate_loop P i (splice1 i xs))
                 else validate_loop P (Suc i) xs))
      else Inr xs)"
  by pat_completeness auto
termination
  by (relation "measure (\<lambda>(P, i, xs). length xs - i)") (auto simp: splice1_def)

declare validate_loop.simps [simp del]

text \<open>
  The same loop over a value that is not an array (a string, or an object with a
  \<^verbatim>\<open>length\<close> property): nothing can be removed from it, since it has no \<^verbatim>\<open>splice\<close>
  method, so the loop either runs through the indices or throws.
\<close>

fun scan_elems :: "platform \<Rightarrow> json \<Rightarrow> nat list \<Rightarrow> js_error + unit" where
  "scan_elems P tc [] = Inr ()"
| "scan_elems P tc (i # is) =
     bindE (get_prop (js_index tc i) ''name'') (\<lambda>nm.
     bindE (get_prop (js_index tc i) ''arguments'') (\<lambda>ar.
       if \<not> truthy nm \<or> \<not> truthy ar then scan_elems P tc is
       else if \<not> includes_name validToolNames nm
         then bindE (template P nm) (\<lambda>unknown.
                Inl (TypeError ''result.toolCalls.splice is not a function''))
       else scan_elems P tc is))"

text \<open>Lines 292 to 313: the guard \<^verbatim>\<open>result.toolCalls.length > 0\<close> and the loop.\<close>

definition validate_toolCalls :: "platform \<Rightarrow> json \<Rightarrow> js_error + json" where
  "validate_toolCalls P tcs =
     (case tcs of
        JArr xs \<Rightarrow>
          (if 0 < length xs then bindE (validate_loop P 0 xs) (\<lambda>ys. Inr (JArr ys))
           else Inr tcs)
      | _ \<Rightarrow>
          bindE (gt_zero P (js_length tcs)) (\<lambda>pos.
            if pos then
              bindE (bound_of P (js_length tcs)) (\<lambda>n.
              bindE (scan_elems P tcs [0..<n]) (\<lambda>_. Inr tcs))
            else Inr tcs))"

text \<open>
  \<^verbatim>\<open>llmResponse.match(/\{[\s\S]*\}/)\<close>: the leftmost match starts at the first opening
  brace, and the greedy star runs to the last closing brace of the text.
\<close>

definition json_match :: "string \<Rightarrow> string option" where
  "json_match s =
     (let after = dropWhile (\<lambda>c. c \<noteq> CHR ''{'') s in
      if CHR ''}'' \<in> set after
      then Some (rev (dropWhile (\<lambda>c. c \<noteq> CHR ''}'') (rev after)))
      else None)"

record parse_result =
  intent :: json
  reasoning :: "json option"
  toolCalls :: json
  text' :: string

text \<open>The object both the no-match branch and the catch block return.\<close>

definition plain_text_result :: "string \<Rightarrow> parse_result" where
  "plain_text_result llmResponse =
     \<lparr>intent = JStr ''other'', reasoning = None, toolCalls = JArr [], text' = llmResponse\<rparr>"

text \<open>The body of the \<^verbatim>\<open>try\<close> block of \<^verbatim>\<open>parseToolResponse\<close> (lines 269 to 315).\<close>

definition parse_body :: "platform \<Rightarrow> string \<Rightarrow> js_error + parse_result" where
  "parse_body P llmResponse =
     (case json_match llmResponse of
        None \<Rightarrow> Inr (plain_text_result llmResponse)
      | Some jsonString \<Rightarrow>
          bindE (JSON_parse P jsonString) (\<lambda>parsed.
          bindE (get_prop (Some parsed) ''intent'') (\<lambda>i.
          bindE (get_prop (Some parsed) ''reasoning'') (\<lambda>r.
          bindE (get_prop (Some parsed) ''tool_calls'') (\<lambda>t.
          bindE (validate_toolCalls P (or_else t (JArr []))) (\<lambda>tcs.
            Inr \<lparr>intent = or_else i (JStr ''unknown''),
                 reasoning = Some (or_else r (JStr [])),
                 toolCalls = tcs, text' = llmResponse\<rparr>))))))"

text \<open>\<^verbatim>\<open>parseToolResponse\<close>: whatever the body throws, the catch block answers.\<close>

definition parseToolResponse :: "platform \<Rightarrow> string \<Rightarrow> parse_result" where
  "parseToolResponse P llmResponse =
     (case parse_body P llmResponse of
        Inl error \<Rightarrow> plain_text_result llmResponse
      | Inr result \<Rightarrow> result)"

text \<open>
  The extraction the specification describes: the first balanced span of braces. The
  scan keeps the nesting depth and the characters read so far (reversed).
\<close>

fun close_span :: "nat \<Rightarrow> string \<Rightarrow> string \<Rightarrow> string option" where
  "close_span d acc [] = None"
| "close_span d acc (c # cs) =
     (if c = CHR ''{'' then close_span (Suc d) (c # acc) cs
      else if c = CHR ''}'' then
        (if d \<le> 1 then Some (rev (c # acc)) else close_span (d - 1) (c # acc) cs)
      else close_span d (c # acc) cs)"

fun first_balanced_span :: "string \<Rightarrow> string option" where
  "first_balanced_span [] = None"
| "first_balanced_span (c # cs) =
     (if c = CHR ''{'' then
        (case close_span 1 [c] cs of
           Some sp \<Rightarrow> Some sp
         | None \<Rightarrow> first_balanced_span cs)
      else first_balanced_span cs)"

text \<open>
  The required fields of the five tool schemas, as \<^verbatim>\<open>CalendarMCPServer.setupTools\<close>
  declares them (\<^verbatim>\<open>inputSchema.required\<close>).
\<close>

definition required_fields :: "string \<Rightarrow> string list" where
  "required_fields n =
     (if n = ''list_calendar_events'' then [''start_date'', ''end_date'']
      else if n = ''create_calendar_event'' then [''title'', ''start_time'']
      else if n = ''update_calendar_event'' then [''event_identifier'', ''updates'']
      else if n = ''delete_calendar_event'' then [''event_identifier'']
      else if n = ''search_calendar_events'' then [''query'']
      else [])"

text \<open>The own property of a value that is not \<^verbatim>\<open>null\<close>, \<^verbatim>\<open>undefined\<close> otherwise.\<close>

fun field :: "json \<Rightarrow> string \<Rightarrow> json option" where
  "field (JObj kvs) k = map_of kvs k"
| "field _ k = None"

text \<open>
  The validity the specification asks of a candidate call: its name is one of the catalog's
  and its arguments hold every field the tool's schema flags as required.
\<close>

definition spec_valid_call :: "json \<Rightarrow> bool" where
  "spec_valid_call tc =
     (case field tc ''name'' of
        Some (JStr n) \<Rightarrow>
          n \<in> set validToolNames \<and>
          (case field tc ''arguments'' of
             Some args \<Rightarrow> list_all (\<lambda>f. field args f \<noteq> None) (required_fields n)
           | None \<Rightarrow> False)
      | _ \<Rightarrow> False)"

text \<open>What the loop itself looks at: the structure check and the name check.\<close>

definition has_structure :: "json \<Rightarrow> bool" where
  "has_structure tc = (truthy (field tc ''name'') \<and> truthy (field tc ''arguments''))"

definition name_in_catalog :: "json \<Rightarrow> bool" where
  "name_in_catalog tc = includes_name validToolNames (field tc ''name'')"

definition kept :: "json \<Rightarrow> bool" where
  "kept tc = (\<not> has_structure tc \<or> name_in_catalog tc)"

text \<open>A candidate whose name can be written into a line of text (every string can).\<close>

definition name_renders :: "platform \<Rightarrow> json \<Rightarrow> bool" where
  "name_renders P tc = (\<not> isl (template P (field tc ''name'')))"

section \<open>\<^verbatim>\<open>MCPLLMService.formatResponse\<close>\<close>

text \<open>The pictographs of the messages, as their UTF-8 bytes, and the line feed.\<close>

definition check_mark :: string where
  "check_mark = [CHR 0xE2, CHR 0x9C, CHR 0x85]"

definition cross_mark :: string where
  "cross_mark = [CHR 0xE2, CHR 0x9D, CHR 0x8C]"

definition calendar_mark :: string where
  "calendar_mark = [CHR 0xF0, CHR 0x9F, CHR 0x93, CHR 0x85]"

definition bullet :: string where
  "bullet = [CHR 0xE2, CHR 0x80, CHR 0xA2]"

definition newline :: string where
  "newline = [CHR 0x0A]"

fun mapE :: "('a \<Rightarrow> 'e + 'b) \<Rightarrow> 'a list \<Rightarrow> 'e + 'b list" where
  "mapE f [] = Inr []"
| "mapE f (x # xs) = bindE (f x) (\<lambda>y. bindE (mapE f xs) (\<lambda>ys. Inr (y # ys)))"

text \<open>One line of the event list (the arrow function of lines 380 to 382).\<close>

definition event_line :: "platform \<Rightarrow> json \<Rightarrow> js_error + string" where
  "event_line P e =
     bindE (get_prop (Some e) ''title'') (\<lambda>t.
     bindE (template P t) (\<lambda>ts.
     bindE (get_prop (Some e) ''start'') (\<lambda>st.
     bindE (toLocaleString P st) (\<lambda>ds.
       Inr (bullet @ '' '' @ ts @ '' - '' @ ds)))))"

text \<open>The \<^verbatim>\<open>query_events\<close> case (lines 378 to 387).\<close>

definition query_message :: "platform \<Rightarrow> json \<Rightarrow> js_error + string" where
  "query_message P data =
     bindE (get_prop (Some data) ''events'') (\<lambda>ev.
     bindE (if truthy ev then gt_zero P (js_length (the ev)) else Inr False) (\<lambda>some.
       if some then
         (case the ev of
            JArr xs \<Rightarrow>
              bindE (mapE (event_line P) xs) (\<lambda>ls.
              bindE (get_prop (Some data) ''count'') (\<lambda>c.
              bindE (template P c) (\<lambda>cs.
                Inr (calendar_mark @ '' Found '' @ cs @ '' event(s):'' @ newline
                       @ join newline ls))))
          | _ \<Rightarrow> Inl (TypeError ''data.events.map is not a function''))
       else Inr (calendar_mark @ '' No events found'')))"

text \<open>The \<^verbatim>\<open>switch (intent)\<close> of a result whose data has a truthy \<^verbatim>\<open>success\<close>.\<close>

definition labelled :: "platform \<Rightarrow> string \<Rightarrow> json \<Rightarrow> js_error + string" where
  "labelled P label data =
     bindE (get_prop (Some data) ''message'') (\<lambda>m.
     bindE (template P m) (\<lambda>ms. Inr (label @ ms)))"

definition success_message :: "platform \<Rightarrow> json \<Rightarrow> json \<Rightarrow> js_error + string" where
  "success_message P intent' data =
     (if intent' = JStr ''create_event'' then labelled P (check_mark @ '' Event created: '') data
      else if intent' = JStr ''edit_event'' then labelled P (check_mark @ '' Event updated: '') data
      else if intent' = JStr ''delete_event'' then labelled P (check_mark @ '' Event deleted: '') data
      else if intent' = JStr ''query_events'' then query_message P data
      else labelled P (check_mark @ '' '') data)"

text \<open>
  Lines 364 to 396, for the first content item \<open>c0\<close> of a result: the \<^verbatim>\<open>try\<close> block, and
  the catch block that answers whatever the block throws. \<^verbatim>\<open>JSON.parse\<close> coerces its
  argument to a string first.
\<close>

definition content_body :: "platform \<Rightarrow> json \<Rightarrow> json \<Rightarrow> js_error + string" where
  "content_body P intent' c0 =
     bindE (get_prop (Some c0) ''text'') (\<lambda>t.
     bindE (template P t) (\<lambda>ts.
     bindE (JSON_parse P ts) (\<lambda>data.
     bindE (get_prop (Some data) ''success'') (\<lambda>su.
       if truthy su then success_message P intent' data
       else labelled P (cross_mark @ '' '') data))))"

definition content_message :: "platform \<Rightarrow> json \<Rightarrow> json \<Rightarrow> string" where
  "content_message P intent' c0 =
     (case content_body P intent' c0 of
        Inl error \<Rightarrow> check_mark @ '' Operation completed''
      | Inr m \<Rightarrow> m)"

text \<open>
  The \<^verbatim>\<open>for (const result of toolResults)\<close> loop, with the array \<^verbatim>\<open>messages\<close> it
  pushes to. Reading \<^verbatim>\<open>result.error\<close> is outside every \<^verbatim>\<open>try\<close>.
\<close>

fun format_loop :: "platform \<Rightarrow> json \<Rightarrow> json list \<Rightarrow> string list \<Rightarrow> js_error + string list" where
  "format_loop P intent' [] messages = Inr messages"
| "format_loop P intent' (result # rest) messages =
     bindE (get_prop (Some result) ''error'') (\<lambda>err.
       if truthy err then
         bindE (template P err) (\<lambda>es.
           format_loop P intent' rest (messages @ [cross_mark @ '' Error: '' @ es]))
       else
         bindE (get_prop (Some result) ''content'') (\<lambda>c.
           if truthy c \<and> truthy (js_index (the c) 0) then
             format_loop P intent' rest
               (messages @ [content_message P intent' (the (js_index (the c) 0))])
           else format_loop P intent' rest messages))"

text \<open>
  \<^verbatim>\<open>formatResponse(intent, toolResults)\<close> for an array \<^verbatim>\<open>toolResults\<close> (a missing
  array is answered like the empty one).
\<close>

definition formatResponse :: "platform \<Rightarrow> json \<Rightarrow> json list \<Rightarrow> js_error + string" where
  "formatResponse P intent' toolResults =
     (if toolResults = [] then Inr ''I couldn't process your request.''
      else
        bindE (format_loop P intent' toolResults []) (\<lambda>messages.
          Inr (if join newline messages = [] then ''Operation completed.''
               else join newline messages)))"

section \<open>Instants, zones and ISO-8601 text\<close>

text \<open>
  An instant is its number of milliseconds since the epoch. The operating zone enters as
  \<open>tz\<close>, its offset from UTC in minutes at the instant \<open>now\<close>. The two resolvers
  (\<^verbatim>\<open>parseDateTime\<close>) are modelled with that offset throughout, as the specification
  describes them; \<^verbatim>\<open>parseDateRange\<close>, whose window can span a change of the offset, goes
  through the zone's rules (\<open>updateOffset\<close>), and the \<^verbatim>\<open>Date\<close> methods of \<^verbatim>\<open>addOneHour\<close>
  through those of the process (\<open>LocalTZA\<close>). An ISO-8601 date-time text is represented by
  what it spells: the clock reading (the milliseconds from \<^verbatim>\<open>1970-01-01T00:00:00.000\<close> to
  the written date and time of day) and the zone designator that follows it, \<^verbatim>\<open>Z\<close> or a
  signed offset.
\<close>

datatype designator = Zulu | Offset int

record iso =
  reading :: int
  designator :: designator

fun offset_ms :: "designator \<Rightarrow> int" where
  "offset_ms Zulu = 0"
| "offset_ms (Offset m) = m * 60000"

text \<open>\<^verbatim>\<open>new Date(text).getTime()\<close> for a valid text with a designator.\<close>

definition instant_of :: "iso \<Rightarrow> int" where
  "instant_of s = reading s - offset_ms (designator s)"

text \<open>
  \<^verbatim>\<open>toISOString()\<close> of a \<^verbatim>\<open>Date\<close> and of a valid moment (called without
  \<^verbatim>\<open>keepOffset\<close>): the UTC reading, followed by \<^verbatim>\<open>Z\<close>.
\<close>

definition toISOString :: "int \<Rightarrow> iso" where
  "toISOString t = \<lparr>reading = t, designator = Zulu\<rparr>"

definition ms_per_day :: int where
  "ms_per_day = 86400000"

definition ms_per_hour :: int where
  "ms_per_hour = 3600000"

text \<open>The local clock reading of an instant in a zone, and the local day number.\<close>

definition local_ms :: "int \<Rightarrow> int \<Rightarrow> int" where
  "local_ms tz t = t + tz * 60000"

definition local_day :: "int \<Rightarrow> int \<Rightarrow> int" where
  "local_day tz t = local_ms tz t div ms_per_day"

text \<open>The civil date of a day number and back (proleptic Gregorian calendar).\<close>

definition civil_from_days :: "int \<Rightarrow> int \<times> int \<times> int" where
  "civil_from_days z =
     (let z' = z + 719468;
          era = z' div 146097;
          doe = z' - era * 146097;
          yoe = (doe - doe div 1460 + doe div 36524 - doe div 146096) div 365;
          doy = doe - (365 * yoe + yoe div 4 - yoe div 100);
          mp = (5 * doy + 2) div 153;
          d = doy - (153 * mp + 2) div 5 + 1;
          m = (if mp < 10 then mp + 3 else mp - 9);
          y = yoe + era * 400
      in (if m \<le> 2 then y + 1 else y, m, d))"

definition days_from_civil :: "int \<Rightarrow> int \<Rightarrow> int \<Rightarrow> int" where
  "days_from_civil y m d =
     (let y' = (if m \<le> 2 then y - 1 else y);
          era = y' div 400;
          yoe = y' - era * 400;
          doy = (153 * (if 2 < m then m - 3 else m + 9) + 2) div 5 + d - 1;
          doe = yoe * 365 + yoe div 4 - yoe div 100 + doy
      in era * 146097 + doe - 719468)"

text \<open>
  The operations of moment-timezone the resolvers use, on an instant in a zone of offset
  \<open>tz\<close>: \<^verbatim>\<open>startOf('day')\<close>, \<^verbatim>\<open>endOf('day')\<close> and \<^verbatim>\<open>add(n, 'days')\<close>.
\<close>

definition startOf_day :: "int \<Rightarrow> int \<Rightarrow> int" where
  "startOf_day tz t = local_day tz t * ms_per_day - tz * 60000"

definition endOf_day :: "int \<Rightarrow> int \<Rightarrow> int" where
  "endOf_day tz t = startOf_day tz t + ms_per_day - 1"

definition add_days :: "int \<Rightarrow> int \<Rightarrow> int" where
  "add_days n t = t + n * ms_per_day"

text \<open>
  A moment as moment-timezone keeps it: the local clock reading (its \<^verbatim>\<open>_d\<close>, in
  milliseconds) and the UTC offset (its \<^verbatim>\<open>_offset\<close>, in minutes). The instant it denotes is
  \<^verbatim>\<open>valueOf()\<close>; \<^verbatim>\<open>moment().tz(zone)\<close> at the instant \<open>now\<close> has the offset in force then.
\<close>

type_synonym moment = "int \<times> int"

definition valueOf :: "moment \<Rightarrow> int" where
  "valueOf m = fst m - snd m * 60000"

definition moment_tz_now :: "int \<Rightarrow> int \<Rightarrow> moment" where
  "moment_tz_now tz now = (now + tz * 60000, tz)"

text \<open>
  \<^verbatim>\<open>startOf\<close>, \<^verbatim>\<open>endOf\<close> and \<^verbatim>\<open>add(n, 'days')\<close> compute a new local reading from the fields
  of the old one and end with \<^verbatim>\<open>updateOffset(this, true)\<close>. The new readings: the first
  millisecond of the day, of the week (which starts on Sunday in moment's default locale;
  day 0 is a Thursday), of the month and of the next month.
\<close>

definition with_reading :: "platform \<Rightarrow> (int \<Rightarrow> int) \<Rightarrow> moment \<Rightarrow> moment" where
  "with_reading P f m = updateOffset P (f (fst m), snd m)"

definition day_floor :: "int \<Rightarrow> int" where
  "day_floor L = (L div ms_per_day) * ms_per_day"

definition week_floor :: "int \<Rightarrow> int" where
  "week_floor L = (L div ms_per_day - (L div ms_per_day + 4) mod 7) * ms_per_day"

definition month_floor :: "int \<Rightarrow> int" where
  "month_floor L =
     (case civil_from_days (L div ms_per_day) of
        (y, m, d) \<Rightarrow> (L div ms_per_day - (d - 1)) * ms_per_day)"

definition next_month_floor :: "int \<Rightarrow> int" where
  "next_month_floor L =
     (case civil_from_days (L div ms_per_day) of
        (y, m, d) \<Rightarrow>
          days_from_civil (if m = 12 then y + 1 else y) (if m = 12 then 1 else m + 1) 1
            * ms_per_day)"

datatype unit_of_time = Day | Week | Month

fun moment_startOf :: "platform \<Rightarrow> unit_of_time \<Rightarrow> moment \<Rightarrow> moment" where
  "moment_startOf P Day m = with_reading P day_floor m"
| "moment_startOf P Week m = with_reading P week_floor m"
| "moment_startOf P Month m = with_reading P month_floor m"

fun moment_endOf :: "platform \<Rightarrow> unit_of_time \<Rightarrow> moment \<Rightarrow> moment" where
  "moment_endOf P Day m = with_reading P (\<lambda>L. day_floor L + ms_per_day - 1) m"
| "moment_endOf P Week m = with_reading P (\<lambda>L. week_floor L + 7 * ms_per_day - 1) m"
| "moment_endOf P Month m = with_reading P (\<lambda>L. next_month_floor L - 1) m"

definition moment_add_days :: "platform \<Rightarrow> int \<Rightarrow> moment \<Rightarrow> moment" where
  "moment_add_days P n m = with_reading P (\<lambda>L. L + n * ms_per_day) m"

text \<open>
  \<^verbatim>\<open>toLowerCase()\<close>: on a string of ASCII characters it lowers the letters A to Z, on any
  other string it is what the Unicode tables make of it. \<^verbatim>\<open>hay.includes(needle)\<close>.
\<close>

definition to_lower_char :: "char \<Rightarrow> char" where
  "to_lower_char c =
     (if 65 \<le> (of_char c :: nat) \<and> (of_char c :: nat) \<le> 90
      then char_of ((of_char c :: nat) + 32) else c)"

definition is_ascii :: "char \<Rightarrow> bool" where
  "is_ascii c = ((of_char c :: nat) < 128)"

definition toLowerCase :: "platform \<Rightarrow> string \<Rightarrow> string" where
  "toLowerCase P s =
     (if list_all is_ascii s then map to_lower_char s else String_toLowerCase P s)"

definition js_includes :: "string \<Rightarrow> string \<Rightarrow> bool" where
  "js_includes hay needle = sublist needle hay"

text \<open>
  \<^verbatim>\<open>parseDateRange(rangeStr)\<close> (the same in \<^verbatim>\<open>CalendarMCPServer\<close> and
  \<^verbatim>\<open>GPT4MCPBridge\<close>), at the instant \<open>now\<close>, every bound rendered by \<^verbatim>\<open>toISOString()\<close>.
\<close>

definition bounds_of :: "moment \<Rightarrow> moment \<Rightarrow> iso \<times> iso" where
  "bounds_of start end' = (toISOString (valueOf start), toISOString (valueOf end'))"

definition parseDateRange :: "platform \<Rightarrow> int \<Rightarrow> int \<Rightarrow> string \<Rightarrow> iso \<times> iso" where
  "parseDateRange P tz now rangeStr =
     (let r = toLowerCase P rangeStr;
          m = moment_tz_now tz now in
      if r = ''today'' then
        bounds_of (moment_startOf P Day m) (moment_endOf P Day m)
      else if r = ''tomorrow'' then
        bounds_of (moment_startOf P Day (moment_add_days P 1 m))
          (moment_endOf P Day (moment_add_days P 1 m))
      else if r = ''this week'' then
        bounds_of (moment_startOf P Week m) (moment_endOf P Week m)
      else if r = ''next week'' then
        bounds_of (moment_startOf P Week (moment_add_days P 7 m))
          (moment_endOf P Week (moment_add_days P 7 m))
      else if r = ''this month'' then
        bounds_of (moment_startOf P Month m) (moment_endOf P Month m)
      else (toISOString now, toISOString (valueOf (moment_add_days P 7 m))))"

section \<open>The Calendar Store: \<^verbatim>\<open>CalendarService\<close> over the Google Calendar API\<close>

text \<open>
  The Google Calendar client is outside the repository. Each of its calls takes the state
  \<open>'w\<close> of the remote calendar and returns the response data or the thrown error, with the
  state after the call. \<open>events_list\<close> stands for \<^verbatim>\<open>response.data.items || []\<close>.
\<close>

record event_patch =
  patch_summary :: "json option"
  patch_location :: "json option"
  patch_description :: "json option"
  patch_start :: "iso option option"
  patch_end :: "iso option option"

record 'w google_calendar =
  events_get :: "json option \<Rightarrow> 'w \<Rightarrow> (js_error + json) \<times> 'w"
  events_list :: "iso option \<Rightarrow> iso option \<Rightarrow> 'w \<Rightarrow> (js_error + json list) \<times> 'w"
  events_delete :: "json option \<Rightarrow> 'w \<Rightarrow> (js_error + unit) \<times> 'w"
  events_update :: "json option \<Rightarrow> json \<Rightarrow> event_patch \<Rightarrow> 'w \<Rightarrow> (js_error + json) \<times> 'w"

text \<open>
  The state threaded through the services is the remote state together with the trace of
  the API calls made so far; the trace exists only to state which calls a run makes.
\<close>

datatype api_call =
    EventsGet "json option"
  | EventsList "iso option" "iso option"
  | EventsDelete "json option"
  | EventsUpdate "json option"

type_synonym 'w store = "'w \<times> api_call list"

text \<open>What \<^verbatim>\<open>deleteEvent\<close> and \<^verbatim>\<open>updateEvent\<close> return: they catch every error.\<close>

record service_result =
  success :: bool
  error :: "string option"

text \<open>
  \<^verbatim>\<open>getEvents(startTime, endTime)\<close>, lines 313 to 362. Between the call and the
  \<^verbatim>\<open>return\<close> it writes four lines per event, inside its \<^verbatim>\<open>try\<close> block, whose
  \<^verbatim>\<open>catch\<close> block throws the error again:
  \<^verbatim>\<open>
  `... "${event.summary || 'No Title'}"`
  `Start: ${event.start?.dateTime || event.start?.date || 'Unknown'}`
  `End: ${event.end?.dateTime || event.end?.date || 'Unknown'}`
  `ID: ${event.id}`
  \<close>
\<close>

definition optional_field :: "json option \<Rightarrow> string \<Rightarrow> json option" where
  "optional_field v k =
     (case v of None \<Rightarrow> None | Some JNull \<Rightarrow> None | Some x \<Rightarrow> field x k)"

definition time_line :: "platform \<Rightarrow> json option \<Rightarrow> js_error + string" where
  "time_line P v =
     (if truthy (optional_field v ''dateTime'') then template P (optional_field v ''dateTime'')
      else if truthy (optional_field v ''date'') then template P (optional_field v ''date'')
      else Inr ''Unknown'')"

definition log_event :: "platform \<Rightarrow> json \<Rightarrow> js_error + unit" where
  "log_event P event =
     bindE (get_prop (Some event) ''summary'') (\<lambda>summary.
     bindE (template P (Some (or_else summary (JStr ''No Title'')))) (\<lambda>l1.
     bindE (get_prop (Some event) ''start'') (\<lambda>start.
     bindE (time_line P start) (\<lambda>l2.
     bindE (get_prop (Some event) ''end'') (\<lambda>end'.
     bindE (time_line P end') (\<lambda>l3.
     bindE (get_prop (Some event) ''id'') (\<lambda>id'.
     bindE (template P id') (\<lambda>l4. Inr ()))))))))"

definition getEvents ::
  "'w google_calendar \<Rightarrow> platform \<Rightarrow> iso option \<Rightarrow> iso option \<Rightarrow> 'w store
     \<Rightarrow> (js_error + json list) \<times> 'w store" where
  "getEvents G P startTime endTime st =
     (case events_list G startTime endTime (fst st) of
        (Inl e, w') \<Rightarrow> (Inl e, (w', snd st @ [EventsList startTime endTime]))
      | (Inr events, w') \<Rightarrow>
          (case mapE (log_event P) events of
             Inl e \<Rightarrow> (Inl e, (w', snd st @ [EventsList startTime endTime]))
           | Inr _ \<Rightarrow> (Inr events, (w', snd st @ [EventsList startTime endTime]))))"

definition deleteEvent ::
  "'w google_calendar \<Rightarrow> json option \<Rightarrow> 'w store \<Rightarrow> service_result \<times> 'w store" where
  "deleteEvent G eventId st =
     (case events_delete G eventId (fst st) of
        (Inr _, w') \<Rightarrow>
          (\<lparr>success = True, error = None\<rparr>, (w', snd st @ [EventsDelete eventId]))
      | (Inl e, w') \<Rightarrow>
          (\<lparr>success = False, error = Some (message e)\<rparr>,
           (w', snd st @ [EventsDelete eventId])))"

definition updateEvent ::
  "'w google_calendar \<Rightarrow> json option \<Rightarrow> event_patch \<Rightarrow> 'w store \<Rightarrow> service_result \<times> 'w store" where
  "updateEvent G eventId updates st =
     (case events_get G eventId (fst st) of
        (Inl e, w') \<Rightarrow>
          (\<lparr>success = False, error = Some (message e)\<rparr>,
           (w', snd st @ [EventsGet eventId]))
      | (Inr existing, w') \<Rightarrow>
          (case events_update G eventId existing updates w' of
             (Inr _, w'') \<Rightarrow>
               (\<lparr>success = True, error = None\<rparr>,
                (w'', snd st @ [EventsGet eventId, EventsUpdate eventId]))
           | (Inl e, w'') \<Rightarrow>
               (\<lparr>success = False, error = Some (message e)\<rparr>,
                (w'', snd st @ [EventsGet eventId, EventsUpdate eventId]))))"

section \<open>The tool server: \<^verbatim>\<open>CalendarMCPServer\<close>\<close>

text \<open>
  A tool response is \<^verbatim>\<open>{content: [{type: "text", text}], isError}\<close>; \<^verbatim>\<open>isError\<close> is only
  set by the catch block of \<^verbatim>\<open>handleRequest\<close>.
\<close>

record tool_response =
  content_text :: string
  isError :: bool

text \<open>The response as the JavaScript object the caller of the server receives.\<close>

definition response_object :: "tool_response \<Rightarrow> json" where
  "response_object r =
     JObj ((''content'', JArr [JObj [(''type'', JStr ''text''), (''text'', JStr (content_text r))]])
           # (if isError r then [(''isError'', JBool True)] else []))"

text \<open>
  \<^verbatim>\<open>CalendarMCPServer.parseDateTime(dateStr, endOfDay)\<close>, lines 834 to 853 of the second
  file, at the clock reading \<open>now\<close>. An invalid moment stays invalid under
  \<^verbatim>\<open>endOf('day')\<close>, and its \<^verbatim>\<open>toISOString()\<close> is \<^verbatim>\<open>null\<close>, here \<open>None\<close>.
\<close>

definition CalendarMCPServer_parseDateTime ::
  "platform \<Rightarrow> int \<Rightarrow> int \<Rightarrow> string \<Rightarrow> bool \<Rightarrow> iso option" where
  "CalendarMCPServer_parseDateTime P tz now dateStr endOfDay =
     (let parsed =
            (if toLowerCase P dateStr = ''today'' then Some now
             else if toLowerCase P dateStr = ''tomorrow'' then Some (add_days 1 now)
             else if toLowerCase P dateStr = ''yesterday'' then Some (add_days (- 1) now)
             else moment_tz P dateStr);
          parsed' = (if endOfDay then map_option (endOf_day tz) parsed else parsed)
      in map_option toISOString parsed')"

text \<open>The same call on an argument as it arrives: only a string has \<^verbatim>\<open>toLowerCase\<close>.\<close>

fun parseDateTime_arg ::
  "platform \<Rightarrow> int \<Rightarrow> int \<Rightarrow> json option \<Rightarrow> js_error + iso option" where
  "parseDateTime_arg P tz now (Some (JStr s)) =
     Inr (CalendarMCPServer_parseDateTime P tz now s False)"
| "parseDateTime_arg P tz now _ = Inl (TypeError ''dateStr.toLowerCase is not a function'')"

text \<open>
  The callback of \<^verbatim>\<open>events.find\<close> in \<^verbatim>\<open>findEventByIdentifier\<close>:
  \<^verbatim>\<open>event.summary?.toLowerCase().includes(identifier.toLowerCase())\<close>.
\<close>

definition summary_matches :: "platform \<Rightarrow> json option \<Rightarrow> json \<Rightarrow> js_error + bool" where
  "summary_matches P identifier event =
     bindE (get_prop (Some event) ''summary'') (\<lambda>s.
       case s of
         None \<Rightarrow> Inr False
       | Some JNull \<Rightarrow> Inr False
       | Some (JStr t) \<Rightarrow>
           (case identifier of
              Some (JStr i) \<Rightarrow> Inr (js_includes (toLowerCase P t) (toLowerCase P i))
            | _ \<Rightarrow> Inl (TypeError ''identifier.toLowerCase is not a function''))
       | Some _ \<Rightarrow> Inl (TypeError ''event.summary.toLowerCase is not a function''))"

text \<open>\<^verbatim>\<open>events.find(...)\<close>: the first event the callback accepts, or \<^verbatim>\<open>undefined\<close>.\<close>

fun find_event :: "platform \<Rightarrow> json option \<Rightarrow> json list \<Rightarrow> js_error + json option" where
  "find_event P identifier [] = Inr None"
| "find_event P identifier (event # events) =
     bindE (summary_matches P identifier event) (\<lambda>b.
       if b then Inr (Some event) else find_event P identifier events)"

text \<open>
  \<^verbatim>\<open>findEventByIdentifier(identifier)\<close>, lines 901 to 920: first the identifier as a
  store-assigned id; when that call throws, the title search among this month's events.
\<close>

definition findEventByIdentifier ::
  "'w google_calendar \<Rightarrow> platform \<Rightarrow> int \<Rightarrow> int \<Rightarrow> json option \<Rightarrow> 'w store
     \<Rightarrow> (js_error + json option) \<times> 'w store" where
  "findEventByIdentifier G P tz now identifier st =
     (case events_get G identifier (fst st) of
        (Inr event, w') \<Rightarrow> (Inr (Some event), (w', snd st @ [EventsGet identifier]))
      | (Inl _, w') \<Rightarrow>
          (case parseDateRange P tz now ''this month'' of
             (startTime, endTime) \<Rightarrow>
               (case getEvents G P (Some startTime) (Some endTime)
                       (w', snd st @ [EventsGet identifier]) of
                  (Inl e, st') \<Rightarrow> (Inl e, st')
                | (Inr events, st') \<Rightarrow> (find_event P identifier events, st'))))"

text \<open>Throwing from a handler: the error and the state reached so far.\<close>

definition throw :: "js_error \<Rightarrow> 's \<Rightarrow> (js_error + 'a) \<times> 's" where
  "throw e st = (Inl e, st)"

text \<open>\<^verbatim>\<open>throw new Error(`Event not found: ${event_identifier}`)\<close>.\<close>

definition not_found :: "platform \<Rightarrow> json option \<Rightarrow> js_error" where
  "not_found P identifier =
     (case template P identifier of
        Inl e \<Rightarrow> e
      | Inr s \<Rightarrow> Error (''Event not found: '' @ s))"

text \<open>The object a handler stringifies; a property whose value is undefined is left out.\<close>

fun defined_props :: "(string \<times> json option) list \<Rightarrow> (string \<times> json) list" where
  "defined_props [] = []"
| "defined_props ((k, None) # kvs) = defined_props kvs"
| "defined_props ((k, Some v) # kvs) = (k, v) # defined_props kvs"

definition outcome_object ::
  "service_result \<Rightarrow> string \<Rightarrow> (string \<times> json option) list \<Rightarrow> json" where
  "outcome_object result message' extra =
     JObj ([(''success'', JBool (success result)), (''message'', JStr message')]
           @ defined_props extra)"

text \<open>The \<^verbatim>\<open>message\<close> both handlers build from the service's result.\<close>

definition outcome_message ::
  "platform \<Rightarrow> service_result \<Rightarrow> string \<Rightarrow> json \<Rightarrow> js_error + string" where
  "outcome_message P result label event =
     (if success result
      then bindE (template P (field event ''summary'')) (\<lambda>s. Inr (label @ s))
      else Inr (''Failed: '' @ the (error result)))"

text \<open>\<^verbatim>\<open>handleDeleteEvent(args)\<close>, lines 766 to 794.\<close>

definition handleDeleteEvent ::
  "'w google_calendar \<Rightarrow> platform \<Rightarrow> int \<Rightarrow> int \<Rightarrow> json option \<Rightarrow> 'w store \<Rightarrow> (js_error + tool_response) \<times> 'w store" where
  "handleDeleteEvent G P tz now args st =
     (case get_prop args ''event_identifier'' of
        Inl e \<Rightarrow> throw e st
      | Inr event_identifier \<Rightarrow>
          (let confirmation =
                 (case field (the args) ''confirmation'' of
                    None \<Rightarrow> JBool True
                  | Some c \<Rightarrow> c)
           in if \<not> truthy (Some confirmation)
              then throw (Error ''Event deletion requires confirmation'') st
              else
                (case findEventByIdentifier G P tz now event_identifier st of
                   (Inl e, st1) \<Rightarrow> throw e st1
                 | (Inr event, st1) \<Rightarrow>
                     if \<not> truthy event then throw (not_found P event_identifier) st1
                     else
                       (case deleteEvent G (field (the event) ''id'') st1 of
                          (result, st2) \<Rightarrow>
                            (case outcome_message P result ''Event deleted: '' (the event) of
                               Inl e \<Rightarrow> throw e st2
                             | Inr m \<Rightarrow>
                                 (Inr \<lparr>content_text = JSON_stringify P
                                         (outcome_object result m
                                            [(''deletedEvent'', field (the event) ''summary'')]),
                                       isError = False\<rparr>, st2))))))"

text \<open>
  The patch \<^verbatim>\<open>handleUpdateEvent\<close> prepares from \<^verbatim>\<open>updates\<close> (lines 731 to 749); reading
  a property of a missing \<^verbatim>\<open>updates\<close> throws. The \<^verbatim>\<open>timeZone\<close> entries, which repeat the
  configured zone name, are left out.
\<close>

definition patch_time ::
  "platform \<Rightarrow> int \<Rightarrow> int \<Rightarrow> json option \<Rightarrow> js_error + iso option option" where
  "patch_time P tz now v =
     (if truthy v then bindE (parseDateTime_arg P tz now v) (\<lambda>d. Inr (Some d))
      else Inr None)"

definition eventUpdates :: "platform \<Rightarrow> int \<Rightarrow> int \<Rightarrow> json option \<Rightarrow> js_error + event_patch" where
  "eventUpdates P tz now updates =
     bindE (get_prop updates ''title'') (\<lambda>title.
     bindE (get_prop updates ''location'') (\<lambda>location.
     bindE (get_prop updates ''description'') (\<lambda>description.
     bindE (get_prop updates ''start_time'') (\<lambda>start_time.
     bindE (patch_time P tz now start_time) (\<lambda>start.
     bindE (get_prop updates ''end_time'') (\<lambda>end_time.
     bindE (patch_time P tz now end_time) (\<lambda>end'.
       Inr \<lparr>patch_summary = (if truthy title then title else None),
            patch_location = (if truthy location then location else None),
            patch_description = (if truthy description then description else None),
            patch_start = start, patch_end = end'\<rparr>)))))))"

text \<open>\<^verbatim>\<open>handleUpdateEvent(args)\<close>, lines 719 to 764.\<close>

definition handleUpdateEvent ::
  "'w google_calendar \<Rightarrow> platform \<Rightarrow> int \<Rightarrow> int \<Rightarrow> json option \<Rightarrow> 'w store \<Rightarrow> (js_error + tool_response) \<times> 'w store" where
  "handleUpdateEvent G P tz now args st =
     (case get_prop args ''event_identifier'' of
        Inl e \<Rightarrow> throw e st
      | Inr event_identifier \<Rightarrow>
          (case findEventByIdentifier G P tz now event_identifier st of
             (Inl e, st1) \<Rightarrow> throw e st1
           | (Inr event, st1) \<Rightarrow>
               if \<not> truthy event then throw (not_found P event_identifier) st1
               else
                 (case eventUpdates P tz now (field (the args) ''updates'') of
                    Inl e \<Rightarrow> throw e st1
                  | Inr patch \<Rightarrow>
                      (case updateEvent G (field (the event) ''id'') patch st1 of
                         (result, st2) \<Rightarrow>
                           (case outcome_message P result ''Event updated: '' (the event) of
                              Inl e \<Rightarrow> throw e st2
                            | Inr m \<Rightarrow>
                                (Inr \<lparr>content_text = JSON_stringify P
                                        (outcome_object result m
                                           [(''originalEvent'', field (the event) ''summary''),
                                            (''updates'', field (the args) ''updates'')]),
                                      isError = False\<rparr>, st2))))))"

text \<open>
  The list, create and search handlers take no part in the properties below; the dispatch
  receives them as they are.
\<close>

record 'w other_handlers =
  handleListEvents :: "json option \<Rightarrow> 'w store \<Rightarrow> (js_error + tool_response) \<times> 'w store"
  handleCreateEvent :: "json option \<Rightarrow> 'w store \<Rightarrow> (js_error + tool_response) \<times> 'w store"
  handleSearchEvents :: "json option \<Rightarrow> 'w store \<Rightarrow> (js_error + tool_response) \<times> 'w store"

record request =
  req_method :: string
  tool_name :: "json option"
  arguments :: "json option"

datatype reply = ToolsList | ToolReply tool_response

text \<open>The \<^verbatim>\<open>switch (name)\<close> inside the \<^verbatim>\<open>try\<close> block of \<^verbatim>\<open>handleRequest\<close>.\<close>

definition call_tool ::
  "'w google_calendar \<Rightarrow> platform \<Rightarrow> 'w other_handlers \<Rightarrow> int \<Rightarrow> int \<Rightarrow> json option \<Rightarrow> json option
     \<Rightarrow> 'w store \<Rightarrow> (js_error + tool_response) \<times> 'w store" where
  "call_tool G P H tz now name args st =
     (if name = Some (JStr ''list_calendar_events'') then handleListEvents H args st
      else if name = Some (JStr ''create_calendar_event'') then handleCreateEvent H args st
      else if name = Some (JStr ''update_calendar_event'') then handleUpdateEvent G P tz now args st
      else if name = Some (JStr ''delete_calendar_event'') then handleDeleteEvent G P tz now args st
      else if name = Some (JStr ''search_calendar_events'') then handleSearchEvents H args st
      else throw (case template P name of
                    Inl e \<Rightarrow> e
                  | Inr s \<Rightarrow> Error (''Unknown tool: '' @ s)) st)"

text \<open>\<^verbatim>\<open>handleRequest(request)\<close>, lines 601 to 645.\<close>

definition handleRequest ::
  "'w google_calendar \<Rightarrow> platform \<Rightarrow> 'w other_handlers \<Rightarrow> int \<Rightarrow> int \<Rightarrow> request
     \<Rightarrow> 'w store \<Rightarrow> (js_error + reply) \<times> 'w store" where
  "handleRequest G P H tz now request st =
     (if req_method request = ''tools/list'' then (Inr ToolsList, st)
      else if req_method request = ''tools/call'' then
        (case call_tool G P H tz now (tool_name request) (arguments request) st of
           (Inl e, st') \<Rightarrow>
             (Inr (ToolReply \<lparr>content_text = ''Error: '' @ message e, isError = True\<rparr>), st')
         | (Inr r, st') \<Rightarrow> (Inr (ToolReply r), st'))
      else throw (Error (''Unknown method: '' @ req_method request)) st)"

section \<open>The single-shot run: \<^verbatim>\<open>MCPLLMService.processEventMessage\<close>\<close>










section \<open>The bridge: \<^verbatim>\<open>GPT4MCPBridge\<close>\<close>

subsection \<open>Date and time helpers\<close>

text \<open>
  The search \<^verbatim>\<open>lowerStr.match(/(\d{1,2})\s?(am|pm)/)\<close>: at the leftmost position where it
  succeeds, two digits are tried before one, and the white space before trying without it.
  The result is \<^verbatim>\<open>parseInt\<close> of the digits and the period. \<^verbatim>\<open>\d\<close> is an ASCII digit;
  \<^verbatim>\<open>\s\<close> is one character of white space or a line terminator: the ASCII ones, U+00A0,
  U+1680, U+2000 to U+200A, U+2028, U+2029, U+202F, U+205F, U+3000 and U+FEFF, which take
  one to three bytes.
\<close>

definition is_digit :: "char \<Rightarrow> bool" where
  "is_digit c = (48 \<le> (of_char c :: nat) \<and> (of_char c :: nat) \<le> 57)"

definition digit_value :: "char \<Rightarrow> nat" where
  "digit_value c = of_char c - 48"

definition space_width :: "string \<Rightarrow> nat" where
  "space_width s =
     (case map (\<lambda>c. of_char c :: nat) (take 3 s) of
        [] \<Rightarrow> 0
      | a # bs \<Rightarrow>
          if a \<in> {9, 10, 11, 12, 13, 32} then 1
          else
            (case bs of
               [] \<Rightarrow> 0
             | b # cs \<Rightarrow>
                 if a = 0xC2 \<and> b = 0xA0 then 2
                 else
                   (case cs of
                      [] \<Rightarrow> 0
                    | c # _ \<Rightarrow>
                        if (a = 0xE1 \<and> b = 0x9A \<and> c = 0x80)
                           \<or> (a = 0xE2 \<and> b = 0x80
                                 \<and> (0x80 \<le> c \<and> c \<le> 0x8A \<or> c = 0xA8 \<or> c = 0xA9 \<or> c = 0xAF))
                           \<or> (a = 0xE2 \<and> b = 0x81 \<and> c = 0x9F)
                           \<or> (a = 0xE3 \<and> b = 0x80 \<and> c = 0x80)
                           \<or> (a = 0xEF \<and> b = 0xBB \<and> c = 0xBF)
                        then 3 else 0)))"

fun ampm_at :: "string \<Rightarrow> string option" where
  "ampm_at (a # b # _) =
     (if b = CHR ''m'' \<and> (a = CHR ''a'' \<or> a = CHR ''p'') then Some [a, b] else None)"
| "ampm_at _ = None"

definition after_space :: "string \<Rightarrow> string option" where
  "after_space s =
     (if 0 < space_width s then
        (case ampm_at (drop (space_width s) s) of Some p \<Rightarrow> Some p | None \<Rightarrow> ampm_at s)
      else ampm_at s)"

definition time_at :: "string \<Rightarrow> (nat \<times> string) option" where
  "time_at s =
     (case s of
        [] \<Rightarrow> None
      | d1 # rest \<Rightarrow>
          if is_digit d1 then
            (case rest of
               [] \<Rightarrow> None
             | d2 # rest2 \<Rightarrow>
                 if is_digit d2 then
                   (case after_space rest2 of
                      Some p \<Rightarrow> Some (10 * digit_value d1 + digit_value d2, p)
                    | None \<Rightarrow> map_option (Pair (digit_value d1)) (after_space rest))
                 else map_option (Pair (digit_value d1)) (after_space rest))
          else None)"

fun time_match :: "string \<Rightarrow> (nat \<times> string) option" where
  "time_match [] = None"
| "time_match (c # cs) =
     (case time_at (c # cs) of Some r \<Rightarrow> Some r | None \<Rightarrow> time_match cs)"

definition hour24 :: "nat \<Rightarrow> string \<Rightarrow> nat" where
  "hour24 hour period =
     (if period = ''pm'' \<and> hour \<noteq> 12 then hour + 12
      else if period = ''am'' \<and> hour = 12 then 0 else hour)"

text \<open>
  \<^verbatim>\<open>parsed.hour(h).minute(0).second(0)\<close> on a moment in a zone: the local day and the
  milliseconds stay, the hour may overflow into the following days.
\<close>

definition set_clock :: "int \<Rightarrow> int \<Rightarrow> nat \<Rightarrow> int" where
  "set_clock tz t h =
     local_day tz t * ms_per_day + int h * ms_per_hour + local_ms tz t mod 1000 - tz * 60000"

definition day_bound :: "int \<Rightarrow> bool \<Rightarrow> int \<Rightarrow> int" where
  "day_bound tz endOfDay t = (if endOfDay then endOf_day tz t else startOf_day tz t)"

text \<open>
  \<^verbatim>\<open>GPT4MCPBridge.parseDateTime(dateStr, endOfDay)\<close>, lines 558 to 645, at the clock
  reading \<open>now\<close>; \<open>tz\<close> is the offset of the zone the method names
  (\<^verbatim>\<open>'Asia/Jerusalem'\<close>).
\<close>

definition GPT4MCPBridge_parseDateTime ::
  "platform \<Rightarrow> int \<Rightarrow> int \<Rightarrow> string \<Rightarrow> bool \<Rightarrow> iso" where
  "GPT4MCPBridge_parseDateTime P tz now dateStr endOfDay =
     (let lowerStr = toLowerCase P dateStr;
          parsed =
            (if lowerStr = ''today'' then day_bound tz endOfDay now
             else if lowerStr = ''tomorrow'' then day_bound tz endOfDay (add_days 1 now)
             else if lowerStr = ''yesterday'' then day_bound tz endOfDay (add_days (- 1) now)
             else if js_includes lowerStr ''tomorrow'' then
               (case time_match lowerStr of
                  Some (hour, period) \<Rightarrow> set_clock tz (add_days 1 now) (hour24 hour period)
                | None \<Rightarrow> day_bound tz endOfDay (add_days 1 now))
             else if js_includes lowerStr ''today'' then
               (case time_match lowerStr of
                  Some (hour, period) \<Rightarrow> set_clock tz now (hour24 hour period)
                | None \<Rightarrow> now)
             else
               (case moment_tz P dateStr of
                  Some t \<Rightarrow> t
                | None \<Rightarrow> now))
      in toISOString parsed)"

text \<open>
  \<^verbatim>\<open>Date.prototype.getHours\<close> and \<^verbatim>\<open>setHours\<close> work in the local zone of the process.
  By ECMAScript, \<open>LocalTime(t) = t + LocalTZA(t, true)\<close> and
  \<open>UTC(t) = t - LocalTZA(t, false)\<close>; \<^verbatim>\<open>getHours()\<close> is the hour of the local time, and
  \<^verbatim>\<open>setHours(h)\<close> is \<open>UTC\<close> of the local time with its hour field replaced (the day, the
  minutes, seconds and milliseconds stay; an hour of 24 is the next day's first). A
  \<^verbatim>\<open>Date\<close> holds a time value of at most 8.64e15 milliseconds either side of the epoch
  (\<open>TimeClip\<close>); beyond that it is invalid, stays invalid under \<^verbatim>\<open>setHours\<close>, and its
  \<^verbatim>\<open>toISOString()\<close> throws a RangeError.
\<close>

definition time_value_ok :: "int \<Rightarrow> bool" where
  "time_value_ok t = (\<bar>t\<bar> \<le> 8640000000000000)"

definition LocalTime :: "platform \<Rightarrow> int \<Rightarrow> int" where
  "LocalTime P t = t + LocalTZA P t True"

definition UTC :: "platform \<Rightarrow> int \<Rightarrow> int" where
  "UTC P t = t - LocalTZA P t False"

definition getHours :: "platform \<Rightarrow> int \<Rightarrow> int" where
  "getHours P t = (LocalTime P t div ms_per_hour) mod 24"

definition setHours :: "platform \<Rightarrow> int \<Rightarrow> int \<Rightarrow> int" where
  "setHours P t h =
     UTC P ((LocalTime P t div ms_per_day) * ms_per_day + h * ms_per_hour
              + LocalTime P t mod ms_per_hour)"

text \<open>
  \<^verbatim>\<open>text.replace('Z', '+03:00')\<close> on the output of \<^verbatim>\<open>toISOString\<close>, whose only
  \<^verbatim>\<open>Z\<close> is the designator.
\<close>

definition replace_Z :: "iso \<Rightarrow> iso" where
  "replace_Z s = (case designator s of Zulu \<Rightarrow> s\<lparr>designator := Offset 180\<rparr> | Offset m \<Rightarrow> s)"

text \<open>
  \<^verbatim>\<open>addOneHour(isoDateTime)\<close>, lines 700 to 704 (\<^verbatim>\<open>CalendarService.addOneHour\<close> is the
  same code):
  \<^verbatim>\<open>
  const date = new Date(isoDateTime);
  date.setHours(date.getHours() + 1);
  return date.toISOString().replace('Z', '+03:00');
  \<close>
\<close>

definition addOneHour :: "platform \<Rightarrow> iso \<Rightarrow> js_error + iso" where
  "addOneHour P isoDateTime =
     (let date = instant_of isoDateTime;
          date' = setHours P date (getHours P date + 1)
      in if time_value_ok date \<and> time_value_ok date'
         then Inr (replace_Z (toISOString date'))
         else Inl (RangeError ''Invalid time value''))"

subsection \<open>The conversation loop\<close>

text \<open>
  A tool call of an assistant message is \<^verbatim>\<open>{id, function: {name, arguments}}\<close>, the
  arguments being JSON text. The conversation is the array \<^verbatim>\<open>messages\<close>; a tool turn holds
  the result object whose \<^verbatim>\<open>JSON.stringify\<close> is its content.
\<close>

record tool_call =
  call_id :: string
  fn_name :: string
  fn_arguments :: string

record assistant_message =
  content :: "string option"
  tool_calls :: "tool_call list option"

datatype chat_message =
    SystemTurn string
  | UserTurn string
  | AssistantTurn assistant_message
  | ToolTurn string json

text \<open>
  The five handlers of the bridge, each from the parsed arguments and the state of the
  Calendar Store to the result object or a thrown error. Every one of them wraps its store
  call in \<^verbatim>\<open>try\<close>/\<^verbatim>\<open>catch\<close>, but reads its arguments before it, so a throw stays
  possible; the loop below is modelled for handlers that return or throw as they like.
\<close>

record 'w bridge_handlers =
  bridge_handleListEvents :: "json \<Rightarrow> 'w \<Rightarrow> (js_error + json) \<times> 'w"
  bridge_handleCreateEvent :: "json \<Rightarrow> 'w \<Rightarrow> (js_error + json) \<times> 'w"
  bridge_handleDeleteEvent :: "json \<Rightarrow> 'w \<Rightarrow> (js_error + json) \<times> 'w"
  bridge_handleUpdateEvent :: "json \<Rightarrow> 'w \<Rightarrow> (js_error + json) \<times> 'w"
  bridge_handleSearchEvents :: "json \<Rightarrow> 'w \<Rightarrow> (js_error + json) \<times> 'w"

text \<open>\<^verbatim>\<open>executeToolCall(toolCall)\<close>, lines 325 to 350.\<close>

definition executeToolCall ::
  "platform \<Rightarrow> 'w bridge_handlers \<Rightarrow> tool_call \<Rightarrow> 'w \<Rightarrow> (js_error + json) \<times> 'w" where
  "executeToolCall P H toolCall w =
     (case JSON_parse P (fn_arguments toolCall) of
        Inl e \<Rightarrow> (Inl e, w)
      | Inr args \<Rightarrow>
          if fn_name toolCall = ''list_calendar_events'' then bridge_handleListEvents H args w
          else if fn_name toolCall = ''create_calendar_event'' then bridge_handleCreateEvent H args w
          else if fn_name toolCall = ''delete_calendar_event'' then bridge_handleDeleteEvent H args w
          else if fn_name toolCall = ''update_calendar_event'' then bridge_handleUpdateEvent H args w
          else if fn_name toolCall = ''search_calendar_events'' then bridge_handleSearchEvents H args w
          else (Inl (Error (''Unknown tool: '' @ fn_name toolCall)), w))"

text \<open>The object the inner catch block appends: \<^verbatim>\<open>{success: false, error: error.message}\<close>.\<close>

definition errorResult :: "js_error \<Rightarrow> json" where
  "errorResult e = JObj [(''success'', JBool False), (''error'', JStr (message e))]"

text \<open>
  The loop \<^verbatim>\<open>for (const toolCall of assistantMessage.tool_calls)\<close>, lines 250 to 287. Both
  the \<^verbatim>\<open>try\<close> block and the \<^verbatim>\<open>catch\<close> block end with
  \<^verbatim>\<open>debug.logToolExecution(name, JSON.parse(toolCall.function.arguments), ...)\<close>, whose
  argument is evaluated whatever the logger then does. A throw in the \<^verbatim>\<open>try\<close> block
  enters the \<^verbatim>\<open>catch\<close> block; a throw in the \<^verbatim>\<open>catch\<close> block leaves the loop.
\<close>

definition catch_block ::
  "platform \<Rightarrow> tool_call \<Rightarrow> js_error \<Rightarrow> chat_message list \<Rightarrow> js_error + chat_message list" where
  "catch_block P toolCall e messages =
     (case JSON_parse P (fn_arguments toolCall) of
        Inl e' \<Rightarrow> Inl e'
      | Inr _ \<Rightarrow> Inr (messages @ [ToolTurn (call_id toolCall) (errorResult e)]))"

fun dispatch ::
  "platform \<Rightarrow> 'w bridge_handlers \<Rightarrow> tool_call list \<Rightarrow> chat_message list \<Rightarrow> 'w
     \<Rightarrow> (js_error + chat_message list) \<times> 'w" where
  "dispatch P H [] messages w = (Inr messages, w)"
| "dispatch P H (toolCall # rest) messages w =
     (case executeToolCall P H toolCall w of
        (Inr result, w') \<Rightarrow>
          (case JSON_parse P (fn_arguments toolCall) of
             Inr _ \<Rightarrow> dispatch P H rest (messages @ [ToolTurn (call_id toolCall) result]) w'
           | Inl e \<Rightarrow>
               (case catch_block P toolCall e
                       (messages @ [ToolTurn (call_id toolCall) result]) of
                  Inl e' \<Rightarrow> (Inl e', w')
                | Inr messages' \<Rightarrow> dispatch P H rest messages' w'))
      | (Inl e, w') \<Rightarrow>
          (case catch_block P toolCall e messages of
             Inl e' \<Rightarrow> (Inl e', w')
           | Inr messages' \<Rightarrow> dispatch P H rest messages' w'))"

text \<open>
  What \<^verbatim>\<open>processMessage\<close> returns: \<^verbatim>\<open>{success: true, response, iterations,
  conversationLength}\<close> or \<^verbatim>\<open>{success: false, error, iterations}\<close>.
\<close>

datatype run_result =
    Completed string nat nat
  | Failed string nat



definition max_iterations_error :: "nat \<Rightarrow> string" where
  "max_iterations_error maxIterations =
     ''Reached maximum iterations ('' @ show_nat maxIterations
       @ ''). The task may be too complex or the AI got stuck in a loop.''"

text \<open>
  The model is the remote call \<^verbatim>\<open>openai.chat.completions.create\<close> followed by
  \<^verbatim>\<open>response.choices[0].message\<close>: from the number of calls already made and the
  conversation sent, the assistant message or the thrown error. The loop of lines 213 to
  323 returns the result, the number of model calls it made, and the store's state:
  \<^verbatim>\<open>
  let iteration = 0;
  while (iteration < maxIterations) {
    iteration++;
    try { ... create(...) ... if (tool calls) { for (...) {...} continue; } else return {...}; }
    catch (error) { return { success: false, error: `GPT-4 API error: ...`, iterations }; }
  }
  return { success: false, error: `Reached maximum iterations ...`, iterations: maxIterations };
  \<close>
  \<open>maxIterations\<close> is \<^verbatim>\<open>config.openai.maxIterations\<close>, a count.
\<close>

function processMessage_loop ::
  "platform \<Rightarrow> 'w bridge_handlers \<Rightarrow> (nat \<Rightarrow> chat_message list \<Rightarrow> js_error + assistant_message)
     \<Rightarrow> nat \<Rightarrow> nat \<Rightarrow> chat_message list \<Rightarrow> nat \<Rightarrow> 'w \<Rightarrow> run_result \<times> nat \<times> 'w" where
  "processMessage_loop P H model maxIterations iteration messages calls w =
     (if iteration < maxIterations then
        (case model calls messages of
           Inl e \<Rightarrow> (Failed (''GPT-4 API error: '' @ message e) (Suc iteration), Suc calls, w)
         | Inr assistantMessage \<Rightarrow>
             (case tool_calls assistantMessage of
                Some (toolCall # rest) \<Rightarrow>
                  (case dispatch P H (toolCall # rest)
                          (messages @ [AssistantTurn assistantMessage]) w of
                     (Inl e, w') \<Rightarrow>
                       (Failed (''GPT-4 API error: '' @ message e) (Suc iteration), Suc calls, w')
                   | (Inr messages', w') \<Rightarrow>
                       processMessage_loop P H model maxIterations (Suc iteration) messages'
                         (Suc calls) w')
              | _ \<Rightarrow>
                  (Completed
                     (case content assistantMessage of
                        None \<Rightarrow> ''Task completed successfully.''
                      | Some c \<Rightarrow> if c = [] then ''Task completed successfully.'' else c)
                     (Suc iteration) (Suc (length messages)),
                   Suc calls, w)))
      else (Failed (max_iterations_error maxIterations) maxIterations, calls, w))"
  by pat_completeness auto
termination
  by (relation "measure (\<lambda>(P, H, model, maxIterations, iteration, messages, calls, w).
        maxIterations - iteration)") auto

declare processMessage_loop.simps [simp del]

text \<open>\<^verbatim>\<open>processMessage(messageText, senderName)\<close>, from the two seeded turns.\<close>

definition processMessage ::
  "platform \<Rightarrow> 'w bridge_handlers \<Rightarrow> (nat \<Rightarrow> chat_message list \<Rightarrow> js_error + assistant_message)
     \<Rightarrow> nat \<Rightarrow> string \<Rightarrow> string \<Rightarrow> 'w \<Rightarrow> run_result \<times> nat \<times> 'w" where
  "processMessage P H model maxIterations systemPrompt messageText w =
     processMessage_loop P H model maxIterations 0
       [SystemTurn systemPrompt, UserTurn messageText] 0 w"

section \<open>Vocabulary of the properties\<close>




text \<open>
  A date expression that one of the keyword branches of the bridge's resolver takes; a
  \<^verbatim>\<open>tools/call\<close> request; a delete call whose \<^verbatim>\<open>confirmation\<close> is truthy or left out.
\<close>

definition is_keyword :: "platform \<Rightarrow> string \<Rightarrow> bool" where
  "is_keyword P dateStr =
     (toLowerCase P dateStr \<in> {''today'', ''tomorrow'', ''yesterday''}
      \<or> js_includes (toLowerCase P dateStr) ''tomorrow''
      \<or> js_includes (toLowerCase P dateStr) ''today'')"

definition tools_call :: "string \<Rightarrow> (string \<times> json) list \<Rightarrow> request" where
  "tools_call name kvs =
     \<lparr>req_method = ''tools/call'', tool_name = Some (JStr name), arguments = Some (JObj kvs)\<rparr>"


text \<open>
  The window \<^verbatim>\<open>startOf('month')\<close> to \<^verbatim>\<open>endOf('month')\<close> of the current moment; an event
  whose title does not contain the identifier, and one that does; an event that
  \<^verbatim>\<open>getEvents\<close> can write to the console; a tool call as the model's output holds it; the
  reply to an identifier that resolves to no event.
\<close>

definition month_window :: "platform \<Rightarrow> int \<Rightarrow> int \<Rightarrow> iso \<times> iso" where
  "month_window P tz now =
     bounds_of (moment_startOf P Month (moment_tz_now tz now))
       (moment_endOf P Month (moment_tz_now tz now))"






section \<open>Sample collaborators for the concrete runs\<close>

text \<open>
  A platform whose JSON parser accepts only the empty object and whose date parser accepts
  nothing, in zones without transitions (the process two hours ahead of UTC), and whose
  lower-casing leaves a string with a character outside ASCII as it is (no sample holds
  one); handlers that count their invocations in the store's state; a model that asks
  for a search whatever it is sent, and one whose only tool call has truncated arguments;
  three candidate tool calls; a calendar that holds one event and knows it by its id.
\<close>

definition sample_platform :: platform where
  "sample_platform =
     \<lparr>JSON_parse = (\<lambda>s. if s = ''{}'' then Inr (JObj [])
                          else Inl (SyntaxError ''Unexpected token in JSON'')),
      JSON_stringify = (\<lambda>j. ''{}''),
      ToNumber = (\<lambda>j. Inr None),
      ToString = (\<lambda>v. Inr ''undefined''),
      toLocaleString = (\<lambda>v. Inr ''Invalid Date''),
      moment_tz = (\<lambda>s. None),
      String_toLowerCase = (\<lambda>s. s),
      updateOffset = (\<lambda>m. m),
      LocalTZA = (\<lambda>t isUTC. 7200000)\<rparr>"

definition counting_handler :: "json \<Rightarrow> nat \<Rightarrow> (js_error + json) \<times> nat" where
  "counting_handler args w = (Inr (JObj [(''success'', JBool True)]), Suc w)"

definition sample_handlers :: "nat bridge_handlers" where
  "sample_handlers =
     \<lparr>bridge_handleListEvents = counting_handler,
      bridge_handleCreateEvent = counting_handler,
      bridge_handleDeleteEvent = counting_handler,
      bridge_handleUpdateEvent = counting_handler,
      bridge_handleSearchEvents = counting_handler\<rparr>"


definition garbled_model :: "nat \<Rightarrow> chat_message list \<Rightarrow> js_error + assistant_message" where
  "garbled_model k messages =
     Inr \<lparr>content = None,
          tool_calls = Some [\<lparr>call_id = ''call_1'', fn_name = ''list_calendar_events'',
                              fn_arguments = ''{start_date: 2025-08-20''\<rparr>]\<rparr>"

definition create_without_fields :: json where
  "create_without_fields =
     JObj [(''name'', JStr ''create_calendar_event''), (''arguments'', JObj [])]"

definition unknown_tool :: json where
  "unknown_tool =
     JObj [(''name'', JStr ''send_email''), (''arguments'', JObj [(''to'', JStr ''john'')])]"

definition email_without_arguments :: json where
  "email_without_arguments = JObj [(''name'', JStr ''send_email'')]"

definition search_dinner :: json where
  "search_dinner =
     JObj [(''name'', JStr ''search_calendar_events''),
           (''arguments'', JObj [(''query'', JStr ''dinner'')])]"

definition team_meeting :: json where
  "team_meeting = JObj [(''id'', JStr ''evt_1''), (''summary'', JStr ''Team Meeting'')]"

definition sample_calendar :: "nat google_calendar" where
  "sample_calendar =
     \<lparr>events_get = (\<lambda>eventId w.
         if eventId = Some (JStr ''evt_1'') then (Inr team_meeting, w)
         else (Inl (Error ''Not Found''), w)),
      events_list = (\<lambda>timeMin timeMax w. (Inr [team_meeting], w)),
      events_delete = (\<lambda>eventId w. (Inr (), Suc w)),
      events_update = (\<lambda>eventId existing patch w. (Inr existing, Suc w))\<rparr>"

text \<open>
  A platform on which an object with a \<^verbatim>\<open>toString\<close> property of its own (in parsed JSON
  never a function) has no string conversion, and a candidate tool call with such a name.
\<close>

definition strict_platform :: platform where
  "strict_platform =
     sample_platform\<lparr>ToString :=
       (\<lambda>v. case v of
              Some (JObj kvs) \<Rightarrow>
                if map_of kvs ''toString'' = None then Inr ''[object Object]''
                else Inl (TypeError ''Cannot convert object to primitive value'')
            | _ \<Rightarrow> Inr ''undefined'')\<rparr>"

definition unnamed_tool :: json where
  "unnamed_tool =
     JObj [(''name'', JObj [(''toString'', JNum 1)]), (''arguments'', JObj [])]"






text \<open>
  A platform whose zone rules, for the operating zone and for the process, are those of
  \<^verbatim>\<open>Asia/Jerusalem\<close> around its change of 26 October 2025: the offset is three hours
  before \<^verbatim>\<open>2025-10-25T23:00:00Z\<close> and two hours from then on, and a local clock reading
  before 02:00 of that day is read with the earlier offset.
\<close>

definition jerusalem_platform :: platform where
  "jerusalem_platform =
     sample_platform\<lparr>
       updateOffset := (\<lambda>(L, offset).
         (L, if L - offset * 60000 < 1761433200000 then 180 else 120)),
       LocalTZA := (\<lambda>t isUTC.
         if isUTC then (if t < 1761433200000 then 10800000 else 7200000)
         else (if t < 1761444000000 then 10800000 else 7200000))\<rparr>"

definition idle_handler :: "json option \<Rightarrow> nat store \<Rightarrow> (js_error + tool_response) \<times> nat store" where
  "idle_handler args st = (Inr \<lparr>content_text = ''{}'', isError = False\<rparr>, st)"

definition sample_other_handlers :: "nat other_handlers" where
  "sample_other_handlers =
     \<lparr>handleListEvents = idle_handler, handleCreateEvent = idle_handler,
      handleSearchEvents = idle_handler\<rparr>"

section \<open>The conversation loop is bounded\<close>









section \<open>Arguments that are not JSON end the run\<close>

text \<open>
  Claim C3, at the input where the code departs from it. When the arguments text of a
  tool call is not valid JSON, \<^verbatim>\<open>executeToolCall\<close> throws, the inner catch block appends
  the failed tool turn, and then evaluates \<^verbatim>\<open>JSON.parse(toolCall.function.arguments)\<close>
  again for the debug log: that throws out of the loop into the outer catch block, and the
  run ends in its first iteration with a \<^verbatim>\<open>GPT-4 API error\<close>. For arguments that parse,
  \<open>dispatch_absorbs\<close> above shows every call absorbed into a tool turn.
\<close>

theorem malformed_arguments_end_run:
  assumes "JSON_parse P (fn_arguments toolCall) = Inl e"
    and "model 0 [SystemTurn systemPrompt, UserTurn messageText]
           = Inr \<lparr>content = c, tool_calls = Some [toolCall]\<rparr>"
    and "0 < maxIterations"
  shows "processMessage P H model maxIterations systemPrompt messageText w
           = (Failed (''GPT-4 API error: '' @ message e) 1, 1, w)"
  using assms
  by (simp add: processMessage_def processMessage_loop.simps executeToolCall_def
        catch_block_def)

theorem malformed_arguments_end_run_witness:
  "processMessage sample_platform sample_handlers garbled_model 5
      ''You are a calendar assistant'' ''what do I have tomorrow'' 0
     = (Failed ''GPT-4 API error: Unexpected token in JSON'' 1, 1, 0)"
  using malformed_arguments_end_run[of sample_platform
          "\<lparr>call_id = ''call_1'', fn_name = ''list_calendar_events'',
            fn_arguments = ''{start_date: 2025-08-20''\<rparr>"
          "SyntaxError ''Unexpected token in JSON''" garbled_model
          "''You are a calendar assistant''" "''what do I have tomorrow''" None 5
          sample_handlers 0]
  by (simp add: sample_platform_def garbled_model_def)

section \<open>The validator of \<^verbatim>\<open>parseToolResponse\<close>\<close>

lemma get_prop_field: "tc \<noteq> JNull \<Longrightarrow> get_prop (Some tc) k = Inr (field tc k)"
  by (cases tc) simp_all

lemma take_splice1: "i < length xs \<Longrightarrow> take i (splice1 i xs) = take i xs"
  by (simp add: splice1_def)

lemma drop_splice1: "i < length xs \<Longrightarrow> drop i (splice1 i xs) = drop (Suc i) xs"
  by (simp add: splice1_def)

lemma validate_loop_filter:
  "JNull \<notin> set (drop i xs) \<Longrightarrow>
   \<forall>tc \<in> set (drop i xs). \<not> kept tc \<longrightarrow> name_renders P tc \<Longrightarrow>
     validate_loop P i xs = Inr (take i xs @ filter kept (drop i xs))"
proof (induction P i xs rule: validate_loop.induct)
  case (1 P i xs)
  show ?case
  proof (cases "i < length xs")
    case False
    then show ?thesis by (simp add: validate_loop.simps)
  next
    case True
    have dr: "drop i xs = xs ! i # drop (Suc i) xs"
      using True by (simp add: Cons_nth_drop_Suc)
    have nn: "xs ! i \<noteq> JNull" and rest: "JNull \<notin> set (drop (Suc i) xs)"
      using "1.prems"(1) dr by auto
    have rn: "\<not> kept (xs ! i) \<longrightarrow> name_renders P (xs ! i)"
      and rrest: "\<forall>tc \<in> set (drop (Suc i) xs). \<not> kept tc \<longrightarrow> name_renders P tc"
      using "1.prems"(2) dr by auto
    have gp: "\<And>k. get_prop (Some (xs ! i)) k = Inr (field (xs ! i) k)"
      using nn by (rule get_prop_field)
    have tk: "take (Suc i) xs = take i xs @ [xs ! i]"
      using True by (simp add: take_Suc_conv_app_nth)
    show ?thesis
    proof (cases "has_structure (xs ! i)")
      case False
      then have ih: "validate_loop P (Suc i) xs = Inr (take (Suc i) xs @ filter kept (drop (Suc i) xs))"
        using "1.IH"(1)[OF True gp gp] rest rrest by (simp add: has_structure_def)
      have "validate_loop P i xs = validate_loop P (Suc i) xs"
        using True False by (subst validate_loop.simps) (simp add: gp has_structure_def)
      moreover have "kept (xs ! i)" using False by (simp add: kept_def)
      ultimately show ?thesis using ih by (simp add: dr tk)
    next
      case hs: True
      show ?thesis
      proof (cases "name_in_catalog (xs ! i)")
        case True
        then have ih: "validate_loop P (Suc i) xs = Inr (take (Suc i) xs @ filter kept (drop (Suc i) xs))"
          using "1.IH"(3)[OF \<open>i < length xs\<close> gp gp] hs rest rrest
          by (simp add: has_structure_def name_in_catalog_def)
        have "validate_loop P i xs = validate_loop P (Suc i) xs"
          using \<open>i < length xs\<close> hs True
          by (subst validate_loop.simps) (simp add: gp has_structure_def name_in_catalog_def)
        moreover have "kept (xs ! i)" using True by (simp add: kept_def)
        ultimately show ?thesis using ih by (simp add: dr tk)
      next
        case False
        have nk: "\<not> kept (xs ! i)" using hs False by (simp add: kept_def)
        then obtain written where w: "template P (field (xs ! i) ''name'') = Inr written"
          using rn by (cases "template P (field (xs ! i) ''name'')") (simp_all add: name_renders_def)
        have "JNull \<notin> set (drop i (splice1 i xs))"
          and "\<forall>tc \<in> set (drop i (splice1 i xs)). \<not> kept tc \<longrightarrow> name_renders P tc"
          using rest rrest \<open>i < length xs\<close> by (simp_all add: drop_splice1)
        then have ih: "validate_loop P i (splice1 i xs) =
            Inr (take i (splice1 i xs) @ filter kept (drop i (splice1 i xs)))"
          using "1.IH"(2)[OF \<open>i < length xs\<close> gp gp _ _ w] hs False
          by (simp add: has_structure_def name_in_catalog_def)
        have "validate_loop P i xs = validate_loop P i (splice1 i xs)"
          using \<open>i < length xs\<close> hs False w
          by (subst validate_loop.simps) (simp add: gp has_structure_def name_in_catalog_def)
        then show ?thesis using ih nk \<open>i < length xs\<close>
          by (simp add: dr take_splice1 drop_splice1)
      qed
    qed
  qed
qed

lemma has_structure_not_null: "has_structure tc \<Longrightarrow> tc \<noteq> JNull"
  by (auto simp: has_structure_def)

lemma string_name_renders: "field tc ''name'' = Some (JStr n) \<Longrightarrow> name_renders P tc"
  by (simp add: name_renders_def)

text \<open>
  Claim C2, as the code has it. Among candidate calls that each carry a name and
  arguments, the name being one that can be written into the validator's error text (every
  string can), the validator keeps exactly those whose name is one of the five catalog
  names, in their order, and drops the others. It never looks at the fields a schema
  requires.
\<close>

theorem validator_keeps_catalog_names:
  assumes "\<forall>tc \<in> set xs. has_structure tc \<and> name_renders P tc"
  shows "validate_toolCalls P (JArr xs) = Inr (JArr (filter name_in_catalog xs))"
proof -
  have nn: "JNull \<notin> set (drop 0 xs)"
    using assms has_structure_not_null by auto
  have rn: "\<forall>tc \<in> set (drop 0 xs). \<not> kept tc \<longrightarrow> name_renders P tc"
    using assms by simp
  have "filter kept xs = filter name_in_catalog xs"
    using assms by (intro filter_cong) (auto simp: kept_def)
  then have "validate_loop P 0 xs = Inr (filter name_in_catalog xs)"
    using validate_loop_filter[OF nn rn] by simp
  then show ?thesis
    by (cases xs) (simp_all add: validate_toolCalls_def bindE_def)
qed

theorem validator_keeps_catalog_names_witness:
  "list_all (\<lambda>tc. has_structure tc \<and> name_renders sample_platform tc)
      [unknown_tool, search_dinner, create_without_fields]
   \<and> validate_toolCalls sample_platform
        (JArr [unknown_tool, search_dinner, create_without_fields])
       = Inr (JArr [search_dinner, create_without_fields])"
  using validator_keeps_catalog_names[of "[unknown_tool, search_dinner, create_without_fields]"
          sample_platform]
  by (simp add: has_structure_def name_in_catalog_def name_renders_def validToolNames_def
        unknown_tool_def search_dinner_def create_without_fields_def)

text \<open>
  Claim C2 as stated fails three times: a \<^verbatim>\<open>create_calendar_event\<close> call with empty
  arguments lacks the required \<^verbatim>\<open>title\<close> and \<^verbatim>\<open>start_time\<close>, and the validator keeps
  it; a call without arguments only meets the \<^verbatim>\<open>continue\<close> of the structure check, so it
  stays in the list although its name is not in the catalog; and a call whose name is an
  object without a string conversion makes the error text of the name check throw, so that
  the validation ends there and the valid call after it is not kept.
\<close>

theorem validator_required_fields_counterexample:
  "validate_toolCalls sample_platform (JArr [create_without_fields])
     = Inr (JArr [create_without_fields])
   \<and> \<not> spec_valid_call create_without_fields
   \<and> validate_toolCalls sample_platform (JArr [email_without_arguments])
     = Inr (JArr [email_without_arguments])
   \<and> \<not> spec_valid_call email_without_arguments
   \<and> validate_toolCalls strict_platform (JArr [unnamed_tool, search_dinner])
     = Inl (TypeError ''Cannot convert object to primitive value'')
   \<and> spec_valid_call search_dinner"
  by (simp add: validate_toolCalls_def bindE_def validate_loop.simps create_without_fields_def
        email_without_arguments_def spec_valid_call_def validToolNames_def required_fields_def
        unnamed_tool_def search_dinner_def strict_platform_def)

section \<open>Extraction and fallback in \<^verbatim>\<open>parseToolResponse\<close>\<close>

lemma dropWhile_no_open:
  "CHR ''{'' \<notin> set pre \<Longrightarrow> dropWhile (\<lambda>c. c \<noteq> CHR ''{'') (pre @ CHR ''{'' # rest) = CHR ''{'' # rest"
  by (induction pre) auto

lemma json_match_span:
  assumes "CHR ''{'' \<notin> set pre" and "CHR ''}'' \<notin> set post"
  shows "json_match (pre @ CHR ''{'' # mid @ CHR ''}'' # post) = Some (CHR ''{'' # mid @ [CHR ''}''])"
proof -
  have a: "dropWhile (\<lambda>c. c \<noteq> CHR ''{'') (pre @ CHR ''{'' # mid @ CHR ''}'' # post)
             = CHR ''{'' # mid @ CHR ''}'' # post"
    using assms(1) by (rule dropWhile_no_open)
  have b: "rev (CHR ''{'' # mid @ CHR ''}'' # post) = rev post @ (CHR ''}'' # rev mid @ [CHR ''{''])"
    by simp
  have c: "dropWhile (\<lambda>c. c \<noteq> CHR ''}'') (rev post @ (CHR ''}'' # rev mid @ [CHR ''{'']))
             = CHR ''}'' # rev mid @ [CHR ''{'']"
    using assms(2) by (subst dropWhile_append2) auto
  show ?thesis
    unfolding json_match_def a Let_def b c by simp
qed

lemma json_match_None_iff:
  "json_match t = None \<longleftrightarrow> CHR ''}'' \<notin> set (dropWhile (\<lambda>c. c \<noteq> CHR ''{'') t)"
  by (simp add: json_match_def Let_def)

lemma json_match_Some_decompose:
  assumes "json_match t = Some js"
  shows "\<exists>pre mid post. t = pre @ js @ post \<and> js = CHR ''{'' # mid @ [CHR ''}'']
           \<and> CHR ''{'' \<notin> set pre \<and> CHR ''}'' \<notin> set post"
proof -
  define pre where "pre = takeWhile (\<lambda>c. c \<noteq> CHR ''{'') t"
  define after where "after = dropWhile (\<lambda>c. c \<noteq> CHR ''{'') t"
  have t: "t = pre @ after" by (simp add: pre_def after_def)
  have pre: "CHR ''{'' \<notin> set pre"
    unfolding pre_def by (auto dest: set_takeWhileD)
  from assms have mem: "CHR ''}'' \<in> set after"
    and js: "js = rev (dropWhile (\<lambda>c. c \<noteq> CHR ''}'') (rev after))"
    by (auto simp: json_match_def Let_def after_def split: if_splits)
  define rpost where "rpost = takeWhile (\<lambda>c. c \<noteq> CHR ''}'') (rev after)"
  have ra: "rev after = rpost @ rev js"
    by (simp add: rpost_def js)
  have after: "after = js @ rev rpost"
    using arg_cong[OF ra, of rev] by simp
  have post: "CHR ''}'' \<notin> set (rev rpost)"
    unfolding rpost_def by (auto dest: set_takeWhileD)
  have "after \<noteq> []" using mem by auto
  then have hd_after: "hd after = CHR ''{''"
    using hd_dropWhile[of "\<lambda>c. c \<noteq> CHR ''{''" t] unfolding after_def by simp
  have "rev js \<noteq> []"
  proof
    assume "rev js = []"
    then have "rev after = rpost" using ra by simp
    then have "CHR ''}'' \<notin> set (rev after)" using post by simp
    then show False using mem by simp
  qed
  then have jne: "js \<noteq> []" by simp
  have hrj: "hd (rev js) = CHR ''}''"
    using \<open>rev js \<noteq> []\<close> hd_dropWhile[of "\<lambda>c. c \<noteq> CHR ''}''" "rev after"]
    unfolding js rev_rev_ident by simp
  have last_js: "last js = CHR ''}''"
    using hrj by (simp add: hd_rev)
  have hd_js: "hd js = CHR ''{''"
    using hd_after after jne by simp
  have "\<exists>mid. js = CHR ''{'' # mid @ [CHR ''}'']"
  proof -
    from jne hd_js obtain tl where tl: "js = CHR ''{'' # tl" by (cases js) auto
    from last_js tl have "tl \<noteq> []" by auto
    then have "tl = butlast tl @ [last tl]" by simp
    then obtain mid where "tl = mid @ [last tl]" ..
    moreover have "last tl = CHR ''}''" using last_js tl \<open>tl \<noteq> []\<close> by simp
    ultimately show ?thesis using tl by auto
  qed
  then obtain mid where mid: "js = CHR ''{'' # mid @ [CHR ''}'']" by blast
  have "t = pre @ js @ rev rpost" using t after by simp
  then show ?thesis using mid pre post by blast
qed

lemma parseToolResponse_degrades:
  "parse_body P t = Inl e \<Longrightarrow> parseToolResponse P t = plain_text_result t"
  by (simp add: parseToolResponse_def)

text \<open>
  Claim C4, as the code has it. \<^verbatim>\<open>parseToolResponse\<close> answers every text: when the text
  has no match, when \<^verbatim>\<open>JSON.parse\<close> rejects the matched span, and whenever anything in
  the body throws, the answer is the plain-text result (intent \<^verbatim>\<open>other\<close>, no tool calls,
  the whole text). The span it extracts runs from the first opening brace of the text to
  its last closing brace.
\<close>

theorem parseToolResponse_total:
  "(json_match t = None \<longrightarrow> parseToolResponse P t = plain_text_result t)
   \<and> (\<forall>js e. json_match t = Some js \<and> JSON_parse P js = Inl e
         \<longrightarrow> parseToolResponse P t = plain_text_result t)
   \<and> (\<forall>e. parse_body P t = Inl e \<longrightarrow> parseToolResponse P t = plain_text_result t)
   \<and> intent (plain_text_result t) = JStr ''other''
   \<and> toolCalls (plain_text_result t) = JArr []
   \<and> text' (plain_text_result t) = t
   \<and> (\<forall>js. json_match t = Some js \<longleftrightarrow>
         (\<exists>pre mid post. t = pre @ js @ post \<and> js = CHR ''{'' # mid @ [CHR ''}'']
            \<and> CHR ''{'' \<notin> set pre \<and> CHR ''}'' \<notin> set post))"
proof (intro conjI allI impI)
  assume "json_match t = None"
  then show "parseToolResponse P t = plain_text_result t"
    by (simp add: parseToolResponse_def parse_body_def)
next
  fix js e assume "json_match t = Some js \<and> JSON_parse P js = Inl e"
  then show "parseToolResponse P t = plain_text_result t"
    by (simp add: parseToolResponse_def parse_body_def bindE_def)
next
  fix e assume "parse_body P t = Inl e"
  then show "parseToolResponse P t = plain_text_result t"
    by (rule parseToolResponse_degrades)
next
  show "intent (plain_text_result t) = JStr ''other''" by (simp add: plain_text_result_def)
  show "toolCalls (plain_text_result t) = JArr []" by (simp add: plain_text_result_def)
  show "text' (plain_text_result t) = t" by (simp add: plain_text_result_def)
next
  fix js
  show "json_match t = Some js \<longleftrightarrow>
         (\<exists>pre mid post. t = pre @ js @ post \<and> js = CHR ''{'' # mid @ [CHR ''}'']
            \<and> CHR ''{'' \<notin> set pre \<and> CHR ''}'' \<notin> set post)"
  proof
    assume "json_match t = Some js"
    then show "\<exists>pre mid post. t = pre @ js @ post \<and> js = CHR ''{'' # mid @ [CHR ''}'']
            \<and> CHR ''{'' \<notin> set pre \<and> CHR ''}'' \<notin> set post"
      by (rule json_match_Some_decompose)
  next
    assume "\<exists>pre mid post. t = pre @ js @ post \<and> js = CHR ''{'' # mid @ [CHR ''}'']
            \<and> CHR ''{'' \<notin> set pre \<and> CHR ''}'' \<notin> set post"
    then obtain pre mid post where "t = pre @ js @ post" "js = CHR ''{'' # mid @ [CHR ''}'']"
      "CHR ''{'' \<notin> set pre" "CHR ''}'' \<notin> set post" by blast
    then show "json_match t = Some js"
      using json_match_span[of pre post mid] by simp
  qed
qed

theorem parseToolResponse_total_witness:
  "json_match ''Sure: {} and then {}'' = Some ''{} and then {}''
   \<and> JSON_parse sample_platform ''{} and then {}'' = Inl (SyntaxError ''Unexpected token in JSON'')
   \<and> json_match ''hello how are you'' = None
   \<and> parseToolResponse sample_platform ''Sure: {} and then {}''
        = \<lparr>intent = JStr ''other'', reasoning = None, toolCalls = JArr [],
           text' = ''Sure: {} and then {}''\<rparr>
   \<and> parseToolResponse sample_platform ''hello how are you''
        = \<lparr>intent = JStr ''other'', reasoning = None, toolCalls = JArr [],
           text' = ''hello how are you''\<rparr>"
proof -
  have m: "json_match ''Sure: {} and then {}'' = Some ''{} and then {}''"
    by (simp add: json_match_def)
  have p: "JSON_parse sample_platform ''{} and then {}'' = Inl (SyntaxError ''Unexpected token in JSON'')"
    by (simp add: sample_platform_def)
  have n: "json_match ''hello how are you'' = None"
    by (simp add: json_match_def)
  from parseToolResponse_total[of "''Sure: {} and then {}''" sample_platform] m p
  have a: "parseToolResponse sample_platform ''Sure: {} and then {}''
           = plain_text_result ''Sure: {} and then {}''" by blast
  from parseToolResponse_total[of "''hello how are you''" sample_platform] n
  have b: "parseToolResponse sample_platform ''hello how are you''
           = plain_text_result ''hello how are you''" by blast
  show ?thesis using m p n a b by (simp add: plain_text_result_def)
qed

text \<open>
  Claim C4 as stated fails on the extraction: in a text with two brace groups the first
  balanced span is the first group, which the parser at hand accepts, while the code
  extracts from the first group's opening brace to the last group's closing brace, which
  it rejects, and answers with the plain-text result.
\<close>

theorem first_balanced_span_counterexample:
  "json_match ''Sure: {} and then {}'' = Some ''{} and then {}''
   \<and> first_balanced_span ''Sure: {} and then {}'' = Some ''{}''
   \<and> parseToolResponse sample_platform ''Sure: {} and then {}''
       = plain_text_result ''Sure: {} and then {}''
   \<and> JSON_parse sample_platform ''{}'' = Inr (JObj [])"
  by (simp add: json_match_def parseToolResponse_def parse_body_def bindE_def sample_platform_def)

section \<open>The resolvers on a text they cannot read\<close>

lemma toLowerCase_ascii:
  "list_all is_ascii s \<Longrightarrow> map to_lower_char s = t \<Longrightarrow> toLowerCase P s = t"
  by (simp add: toLowerCase_def)

lemma bridge_falls_back_to_now:
  "\<not> is_keyword P dateStr \<Longrightarrow> moment_tz P dateStr = None \<Longrightarrow>
   GPT4MCPBridge_parseDateTime P tz now dateStr endOfDay = toISOString now"
  by (simp add: GPT4MCPBridge_parseDateTime_def is_keyword_def Let_def)

text \<open>
  Claim C5, at the input where the code departs from it. On a text that is no keyword and
  that moment cannot parse, \<^verbatim>\<open>GPT4MCPBridge.parseDateTime\<close> falls back to the current
  instant (the lemma above), but \<^verbatim>\<open>CalendarMCPServer.parseDateTime\<close> has no validity
  check: it returns the \<^verbatim>\<open>toISOString()\<close> of the invalid moment, which is \<^verbatim>\<open>null\<close>.
\<close>

theorem server_parseDateTime_returns_null:
  "\<not> is_keyword P dateStr \<Longrightarrow> moment_tz P dateStr = None \<Longrightarrow>
   CalendarMCPServer_parseDateTime P tz now dateStr endOfDay = None"
  by (simp add: CalendarMCPServer_parseDateTime_def is_keyword_def Let_def)

lemma lower_next_friday: "toLowerCase P ''Next Friday-ish'' = ''next friday-ish''"
  by (rule toLowerCase_ascii) code_simp+

lemma not_keyword_next_friday: "\<not> is_keyword P ''Next Friday-ish''"
  unfolding is_keyword_def lower_next_friday
  by (simp add: js_includes_def sublist_code)

theorem server_parseDateTime_returns_null_witness:
  "\<not> is_keyword sample_platform ''Next Friday-ish''
   \<and> moment_tz sample_platform ''Next Friday-ish'' = None
   \<and> CalendarMCPServer_parseDateTime sample_platform 180 1755604800000 ''Next Friday-ish'' False = None
   \<and> GPT4MCPBridge_parseDateTime sample_platform 180 1755604800000 ''Next Friday-ish'' False
        = \<lparr>reading = 1755604800000, designator = Zulu\<rparr>"
proof -
  have m: "moment_tz sample_platform ''Next Friday-ish'' = None"
    by (simp add: sample_platform_def)
  show ?thesis
    using server_parseDateTime_returns_null[OF not_keyword_next_friday m, of 180 1755604800000 False]
      bridge_falls_back_to_now[OF not_keyword_next_friday m, of 180 1755604800000 False]
      not_keyword_next_friday[of sample_platform] m
    by (simp add: toISOString_def)
qed

section \<open>The resolvers within one second\<close>




lemma day_bound_same_second:
  "local_day tz t1 = local_day tz t2 \<Longrightarrow> day_bound tz e t1 = day_bound tz e t2"
  by (simp add: day_bound_def startOf_day_def endOf_day_def)







text \<open>
  The time of day is found behind a no-break space as behind an ordinary one.
\<close>

lemma time_match_examples:
  "time_match (''tomorrow 3'' @ [CHR 0xC2, CHR 0xA0] @ ''pm'') = Some (3, ''pm'')"
  "time_match ''tomorrow 11 am'' = Some (11, ''am'')"
  "time_match ''tomorrow at noon'' = None"
  by code_simp+

section \<open>Deleting needs confirmation\<close>

lemma deleteEvent_trace:
  "snd (snd (deleteEvent G eventId st)) = snd st @ [EventsDelete eventId]
   \<and> fst (snd (deleteEvent G eventId st)) = snd (events_delete G eventId (fst st))"
  by (cases "events_delete G eventId (fst st)"; cases "fst (events_delete G eventId (fst st))")
     (auto simp: deleteEvent_def)

text \<open>
  Claim C10. A \<^verbatim>\<open>delete_calendar_event\<close> call whose \<^verbatim>\<open>confirmation\<close> is \<^verbatim>\<open>false\<close> gets
  the error response \<^verbatim>\<open>Error: Event deletion requires confirmation\<close> and leaves the
  store as it was: no API call is made, so none to delete. A call that leaves
  \<^verbatim>\<open>confirmation\<close> out is handled as one that sets it to \<^verbatim>\<open>true\<close>; when its identifier
  is an id the store knows, the event is deleted: the trace ends with the delete call for
  the event's id, and the remote state is the one that call leaves.
\<close>

theorem delete_needs_confirmation:
  "(map_of kvs ''confirmation'' = Some (JBool False) \<longrightarrow>
      handleRequest G P H tz now (tools_call ''delete_calendar_event'' kvs) st
        = (Inr (ToolReply \<lparr>content_text = ''Error: Event deletion requires confirmation'',
                           isError = True\<rparr>), st))
   \<and> (map_of kvs ''confirmation'' = None \<longrightarrow>
        handleRequest G P H tz now (tools_call ''delete_calendar_event'' kvs) st
          = handleRequest G P H tz now
              (tools_call ''delete_calendar_event'' ((''confirmation'', JBool True) # kvs)) st)
   \<and> (map_of kvs ''confirmation'' = None
        \<and> events_get G (map_of kvs ''event_identifier'') (fst st) = (Inr event, w1)
        \<and> truthy (Some event) \<longrightarrow>
        snd (snd (handleRequest G P H tz now (tools_call ''delete_calendar_event'' kvs) st))
          = snd st @ [EventsGet (map_of kvs ''event_identifier''), EventsDelete (field event ''id'')]
        \<and> fst (snd (handleRequest G P H tz now (tools_call ''delete_calendar_event'' kvs) st))
          = snd (events_delete G (field event ''id'') w1))"
proof (intro conjI impI)
  assume "map_of kvs ''confirmation'' = Some (JBool False)"
  then show "handleRequest G P H tz now (tools_call ''delete_calendar_event'' kvs) st
        = (Inr (ToolReply \<lparr>content_text = ''Error: Event deletion requires confirmation'',
                           isError = True\<rparr>), st)"
    by (simp add: handleRequest_def tools_call_def call_tool_def handleDeleteEvent_def throw_def)
next
  assume "map_of kvs ''confirmation'' = None"
  then show "handleRequest G P H tz now (tools_call ''delete_calendar_event'' kvs) st
          = handleRequest G P H tz now
              (tools_call ''delete_calendar_event'' ((''confirmation'', JBool True) # kvs)) st"
    by (simp add: handleRequest_def tools_call_def call_tool_def handleDeleteEvent_def)
next
  assume a: "map_of kvs ''confirmation'' = None
        \<and> events_get G (map_of kvs ''event_identifier'') (fst st) = (Inr event, w1)
        \<and> truthy (Some event)"
  have f: "findEventByIdentifier G P tz now (map_of kvs ''event_identifier'') st
            = (Inr (Some event), (w1, snd st @ [EventsGet (map_of kvs ''event_identifier'')]))"
    using a by (simp add: findEventByIdentifier_def)
  obtain result st2 where d: "deleteEvent G (field event ''id'')
       (w1, snd st @ [EventsGet (map_of kvs ''event_identifier'')]) = (result, st2)"
    by (cases "deleteEvent G (field event ''id'')
       (w1, snd st @ [EventsGet (map_of kvs ''event_identifier'')])") auto
  have st2: "snd st2 = snd st @ [EventsGet (map_of kvs ''event_identifier''), EventsDelete (field event ''id'')]"
       "fst st2 = snd (events_delete G (field event ''id'') w1)"
    using deleteEvent_trace[of G "field event ''id''"
            "(w1, snd st @ [EventsGet (map_of kvs ''event_identifier'')])"] d
    by simp_all
  have "snd (handleRequest G P H tz now (tools_call ''delete_calendar_event'' kvs) st) = st2"
    using a f d
    by (cases "outcome_message P result ''Event deleted: '' event")
       (simp_all add: handleRequest_def tools_call_def call_tool_def handleDeleteEvent_def
          throw_def Let_def)
  then show "snd (snd (handleRequest G P H tz now (tools_call ''delete_calendar_event'' kvs) st))
          = snd st @ [EventsGet (map_of kvs ''event_identifier''), EventsDelete (field event ''id'')]"
    and "fst (snd (handleRequest G P H tz now (tools_call ''delete_calendar_event'' kvs) st))
          = snd (events_delete G (field event ''id'') w1)"
    using st2 by simp_all
qed


theorem delete_needs_confirmation_witness:
  "map_of [(''event_identifier'', JStr ''evt_1''), (''confirmation'', JBool False)] ''confirmation''
      = Some (JBool False)
   \<and> handleRequest sample_calendar sample_platform sample_other_handlers 180 1755604800000
        (tools_call ''delete_calendar_event''
           [(''event_identifier'', JStr ''evt_1''), (''confirmation'', JBool False)]) (0, [])
      = (Inr (ToolReply \<lparr>content_text = ''Error: Event deletion requires confirmation'',
                         isError = True\<rparr>), (0, []))
   \<and> map_of [(''event_identifier'', JStr ''evt_1'')] ''confirmation'' = None
   \<and> events_get sample_calendar (Some (JStr ''evt_1'')) 0 = (Inr team_meeting, 0)
   \<and> truthy (Some team_meeting)
   \<and> snd (handleRequest sample_calendar sample_platform sample_other_handlers 180 1755604800000
        (tools_call ''delete_calendar_event'' [(''event_identifier'', JStr ''evt_1'')]) (0, []))
      = (1, [EventsGet (Some (JStr ''evt_1'')), EventsDelete (Some (JStr ''evt_1''))])"
proof -
  have a: "map_of [(''event_identifier'', JStr ''evt_1''), (''confirmation'', JBool False)]
             ''confirmation'' = Some (JBool False)"
    by simp
  have b: "map_of [(''event_identifier'', JStr ''evt_1'')] ''confirmation'' = None"
    by simp
  have g: "events_get sample_calendar (map_of [(''event_identifier'', JStr ''evt_1'')] ''event_identifier'')
             (fst (0 :: nat, [] :: api_call list)) = (Inr team_meeting, 0)"
    by (simp add: sample_calendar_def)
  have t: "truthy (Some team_meeting)"
    by (simp add: team_meeting_def)
  note d1 = delete_needs_confirmation[of
      "[(''event_identifier'', JStr ''evt_1''), (''confirmation'', JBool False)]"
      sample_calendar sample_platform sample_other_handlers 180 1755604800000 "(0, [])"]
  note d2 = delete_needs_confirmation[of "[(''event_identifier'', JStr ''evt_1'')]"
      sample_calendar sample_platform sample_other_handlers 180 1755604800000 "(0, [])"
      team_meeting 0]
  have r1: "handleRequest sample_calendar sample_platform sample_other_handlers 180 1755604800000
        (tools_call ''delete_calendar_event''
           [(''event_identifier'', JStr ''evt_1''), (''confirmation'', JBool False)]) (0, [])
      = (Inr (ToolReply \<lparr>content_text = ''Error: Event deletion requires confirmation'',
                         isError = True\<rparr>), (0, []))"
    using d1 a by blast
  have r2: "snd (snd (handleRequest sample_calendar sample_platform sample_other_handlers 180
        1755604800000
        (tools_call ''delete_calendar_event'' [(''event_identifier'', JStr ''evt_1'')]) (0, [])))
      = snd (0 :: nat, [] :: api_call list)
          @ [EventsGet (map_of [(''event_identifier'', JStr ''evt_1'')] ''event_identifier''),
             EventsDelete (field team_meeting ''id'')]"
    and r3: "fst (snd (handleRequest sample_calendar sample_platform sample_other_handlers 180
        1755604800000
        (tools_call ''delete_calendar_event'' [(''event_identifier'', JStr ''evt_1'')]) (0, [])))
      = snd (events_delete sample_calendar (field team_meeting ''id'') 0)"
    using d2 b g t by blast+
  have r: "snd (handleRequest sample_calendar sample_platform sample_other_handlers 180 1755604800000
        (tools_call ''delete_calendar_event'' [(''event_identifier'', JStr ''evt_1'')]) (0, []))
      = (1, [EventsGet (Some (JStr ''evt_1'')), EventsDelete (Some (JStr ''evt_1''))])"
    using r2 r3 by (simp add: prod_eq_iff team_meeting_def sample_calendar_def)
  show ?thesis using a b g t r1 r by simp
qed

section \<open>Formatting tool results\<close>

lemma response_object_error:
  "get_prop (Some (response_object r)) ''error'' = Inr None"
  by (simp add: response_object_def)

lemma response_object_content:
  "get_prop (Some (response_object r)) ''content''
     = Inr (Some (JArr [JObj [(''type'', JStr ''text''), (''text'', JStr (content_text r))]]))"
  by (simp add: response_object_def)

lemma unparsable_content_completed:
  assumes "JSON_parse P t = Inl e"
  shows "formatResponse P intent' [response_object \<lparr>content_text = t, isError = b\<rparr>]
         = Inr (check_mark @ '' Operation completed'')"
proof -
  have cm: "content_message P intent' (JObj [(''type'', JStr ''text''), (''text'', JStr t)])
            = check_mark @ '' Operation completed''"
    using assms by (simp add: content_message_def content_body_def bindE_def)
  have fl: "format_loop P intent' [response_object \<lparr>content_text = t, isError = b\<rparr>] []
            = Inr [check_mark @ '' Operation completed'']"
    using cm by (simp add: response_object_error response_object_content bindE_def)
  have ne: "check_mark @ '' Operation completed'' \<noteq> []"
    by (simp add: check_mark_def)
  have ro: "response_object \<lparr>content_text = t, isError = b\<rparr> # [] \<noteq> []"
    by simp
  show ?thesis
    unfolding formatResponse_def fl bindE_def using ne ro by simp
qed

text \<open>
  Claim C8, at the input where the code departs from it. The response the tool server
  gives for a failed call has the text \<^verbatim>\<open>Error: ...\<close>, which is not JSON; \<^verbatim>\<open>formatResponse\<close>
  does not read \<^verbatim>\<open>isError\<close>, the parse of the text throws, and the catch block renders
  the failed result as a completed operation instead of an error line.
\<close>

theorem tool_error_formatted_as_success:
  assumes "JSON_parse P (''Error: '' @ m) = Inl e"
  shows "formatResponse P intent'
           [response_object \<lparr>content_text = ''Error: '' @ m, isError = True\<rparr>]
         = Inr (check_mark @ '' Operation completed'')"
  using assms by (rule unparsable_content_completed)

theorem tool_error_formatted_as_success_witness:
  "JSON_parse sample_platform (''Error: '' @ ''Event not found: dinner'')
     = Inl (SyntaxError ''Unexpected token in JSON'')
   \<and> formatResponse sample_platform (JStr ''delete_event'')
        [response_object \<lparr>content_text = ''Error: Event not found: dinner'', isError = True\<rparr>]
      = Inr (check_mark @ '' Operation completed'')"
proof -
  have p: "JSON_parse sample_platform (''Error: '' @ ''Event not found: dinner'')
     = Inl (SyntaxError ''Unexpected token in JSON'')"
    by (simp add: sample_platform_def)
  show ?thesis
    using tool_error_formatted_as_success[OF p, of "JStr ''delete_event''"] p by simp
qed

text \<open>The rest of the claim holds: the answer is never empty.\<close>

lemma formatResponse_never_empty: "formatResponse P intent' toolResults \<noteq> Inr []"
  by (cases "format_loop P intent' toolResults []")
     (simp_all add: formatResponse_def bindE_def)

lemma formatResponse_no_results:
  "formatResponse P intent' [] = Inr ''I couldn't process your request.''"
  by (simp add: formatResponse_def)

text \<open>
  The results are rendered one after the other, each adding its lines after those of the
  results before it; a result with an \<^verbatim>\<open>error\<close> property and a result whose data has
  \<^verbatim>\<open>success: false\<close> become error lines, and a created event its own phrase.
\<close>

lemma format_loop_append:
  "format_loop P intent' (rs1 @ rs2) messages
     = bindE (format_loop P intent' rs1 messages) (\<lambda>messages'. format_loop P intent' rs2 messages')"
proof (induction rs1 arbitrary: messages)
  case Nil
  then show ?case by (simp add: bindE_def)
next
  case (Cons r rs1)
  show ?case
  proof (cases "get_prop (Some r) ''error''")
    case (Inl e)
    then show ?thesis by (simp add: bindE_def)
  next
    case err: (Inr err)
    show ?thesis
    proof (cases "truthy err")
      case True
      then show ?thesis using err Cons.IH
        by (cases "template P err") (simp_all add: bindE_def)
    next
      case False
      then show ?thesis using err Cons.IH
        by (cases "get_prop (Some r) ''content''") (simp_all add: bindE_def)
    qed
  qed
qed

lemma format_loop_extends:
  "format_loop P intent' rs messages = Inr messages' \<Longrightarrow> \<exists>ls. messages' = messages @ ls"
proof (induction rs arbitrary: messages)
  case Nil
  then show ?case by simp
next
  case (Cons r rs)
  from Cons.prems obtain err where err: "get_prop (Some r) ''error'' = Inr err"
    by (cases "get_prop (Some r) ''error''") (simp_all add: bindE_def)
  show ?case
  proof (cases "truthy err")
    case True
    with Cons.prems err obtain es where
      "format_loop P intent' rs (messages @ [cross_mark @ '' Error: '' @ es]) = Inr messages'"
      by (cases "template P err") (simp_all add: bindE_def)
    from Cons.IH[OF this] show ?thesis by auto
  next
    case False
    with Cons.prems err obtain c where c: "get_prop (Some r) ''content'' = Inr c"
      by (cases "get_prop (Some r) ''content''") (simp_all add: bindE_def)
    show ?thesis
    proof (cases "truthy c \<and> truthy (js_index (the c) 0)")
      case True
      then have "format_loop P intent' rs
          (messages @ [content_message P intent' (the (js_index (the c) 0))]) = Inr messages'"
        using Cons.prems err False c by (simp add: bindE_def)
      from Cons.IH[OF this] show ?thesis by auto
    next
      case nc: False
      then have "format_loop P intent' rs messages = Inr messages'"
        using Cons.prems err False c by (auto simp: bindE_def split: if_splits)
      from Cons.IH[OF this] show ?thesis .
    qed
  qed
qed

lemma error_result_line:
  "m \<noteq> [] \<Longrightarrow>
   formatResponse P intent' [JObj [(''error'', JStr m)]] = Inr (cross_mark @ '' Error: '' @ m)"
  by (simp add: formatResponse_def bindE_def cross_mark_def)

lemma unsuccessful_data_line:
  assumes "JSON_parse P t = Inr (JObj [(''success'', JBool False), (''message'', JStr m)])"
  shows "formatResponse P intent' [response_object \<lparr>content_text = t, isError = False\<rparr>]
           = Inr (cross_mark @ '' '' @ m)"
proof -
  have cm: "content_message P intent' (JObj [(''type'', JStr ''text''), (''text'', JStr t)])
            = cross_mark @ '' '' @ m"
    using assms by (simp add: content_message_def content_body_def labelled_def bindE_def)
  have fl: "format_loop P intent' [response_object \<lparr>content_text = t, isError = False\<rparr>] []
            = Inr [cross_mark @ '' '' @ m]"
    using cm by (simp add: response_object_def bindE_def)
  have ne: "cross_mark @ '' '' @ m \<noteq> []" by (simp add: cross_mark_def)
  show ?thesis unfolding formatResponse_def fl bindE_def using ne by simp
qed

lemma created_data_line:
  assumes "JSON_parse P t = Inr (JObj [(''success'', JBool True), (''message'', JStr m)])"
  shows "formatResponse P (JStr ''create_event'')
           [response_object \<lparr>content_text = t, isError = False\<rparr>]
           = Inr (check_mark @ '' Event created: '' @ m)"
proof -
  have cm: "content_message P (JStr ''create_event'')
              (JObj [(''type'', JStr ''text''), (''text'', JStr t)])
            = check_mark @ '' Event created: '' @ m"
    using assms
    by (simp add: content_message_def content_body_def success_message_def labelled_def bindE_def)
  have fl: "format_loop P (JStr ''create_event'')
              [response_object \<lparr>content_text = t, isError = False\<rparr>] []
            = Inr [check_mark @ '' Event created: '' @ m]"
    using cm by (simp add: response_object_def bindE_def)
  have ne: "check_mark @ '' Event created: '' @ m \<noteq> []" by (simp add: check_mark_def)
  show ?thesis unfolding formatResponse_def fl bindE_def using ne by simp
qed

section \<open>Resolving an event identifier\<close>



text \<open>
  The month window in a zone without transitions, at a year's end, in a leap February and
  before the epoch (two hours ahead of UTC, and UTC itself); and in October 2025 in
  \<^verbatim>\<open>Asia/Jerusalem\<close>, where the month starts three hours and ends two hours ahead of UTC.
\<close>

lemma month_floor_examples:
  "month_floor 1735687800000 = 1733011200000"
  "next_month_floor 1735687800000 = 1735689600000"
  "month_floor 1709164800000 = 1706745600000"
  "next_month_floor 1709164800000 = 1709251200000"
  "month_floor (- 14182980000) = (- 15897600000)"
  "next_month_floor (- 14182980000) = (- 13219200000)"
  "month_floor 1760108400000 = 1759276800000"
  "next_month_floor 1760108400000 = 1761955200000"
  "month_floor 1755615600000 = 1754006400000"
  "next_month_floor 1755615600000 = 1756684800000"
  by code_simp+

lemmas mw_defs = month_window_def bounds_of_def moment_tz_now_def with_reading_def valueOf_def
  toISOString_def

lemma month_window_examples:
  "month_window sample_platform 120 1735680600000
     = (\<lparr>reading = 1733004000000, designator = Zulu\<rparr>,
        \<lparr>reading = 1735682399999, designator = Zulu\<rparr>)"
  "month_window sample_platform 120 1709157600000
     = (\<lparr>reading = 1706738400000, designator = Zulu\<rparr>,
        \<lparr>reading = 1709243999999, designator = Zulu\<rparr>)"
  "month_window sample_platform 0 (- 14182980000)
     = (\<lparr>reading = - 15897600000, designator = Zulu\<rparr>,
        \<lparr>reading = - 13219200001, designator = Zulu\<rparr>)"
  "month_window jerusalem_platform 180 1760097600000
     = (\<lparr>reading = 1759266000000, designator = Zulu\<rparr>,
        \<lparr>reading = 1761947999999, designator = Zulu\<rparr>)"
  by (simp_all add: mw_defs month_floor_examples sample_platform_def jerusalem_platform_def)






text \<open>An event that cannot be written to the console ends the listing with its error.\<close>

lemma getEvents_unloggable:
  assumes "events_list G startTime endTime (fst st) = (Inr events, w2)"
    and "mapE (log_event P) events = Inl e"
  shows "getEvents G P startTime endTime st
           = (Inl e, (w2, snd st @ [EventsList startTime endTime]))"
  using assms by (simp add: getEvents_def)

lemma log_event_example:
  "log_event strict_platform (JObj [(''id'', JObj [(''toString'', JNum 1)])])
     = Inl (TypeError ''Cannot convert object to primitive value'')"
  by (simp add: log_event_def bindE_def or_else_def time_line_def optional_field_def
        strict_platform_def)



















section \<open>\<^verbatim>\<open>addOneHour\<close>\<close>

lemma hour_fields:
  fixes L :: int
  shows "(L div ms_per_day) * ms_per_day + ((L div ms_per_hour) mod 24 + 1) * ms_per_hour
           + L mod ms_per_hour = L + ms_per_hour"
proof -
  have d: "L div ms_per_day = (L div ms_per_hour) div 24"
    unfolding ms_per_day_def ms_per_hour_def
    by (simp add: div_mult2_eq[symmetric] zdiv_zmult2_eq[symmetric])
  have "L = (L div ms_per_hour) * ms_per_hour + L mod ms_per_hour" by simp
  moreover have "L div ms_per_hour = ((L div ms_per_hour) div 24) * 24 + (L div ms_per_hour) mod 24"
    by simp
  ultimately have "L = ((L div ms_per_hour) div 24) * (24 * ms_per_hour)
      + ((L div ms_per_hour) mod 24) * ms_per_hour + L mod ms_per_hour"
    by (metis (no_types, opaque_lifting) distrib_right mult.assoc)
  then have "L = (L div ms_per_day) * ms_per_day + ((L div ms_per_hour) mod 24) * ms_per_hour + L mod ms_per_hour"
    unfolding d by (simp add: ms_per_day_def ms_per_hour_def)
  then show ?thesis by (simp add: algebra_simps)
qed

lemma setHours_next:
  "setHours P t (getHours P t + 1) = UTC P (LocalTime P t + ms_per_hour)"
  unfolding setHours_def getHours_def by (simp add: hour_fields)

lemma addOneHour_beyond_range:
  "\<not> time_value_ok (instant_of isoDateTime) \<Longrightarrow>
   addOneHour P isoDateTime = Inl (RangeError ''Invalid time value'')"
  by (simp add: addOneHour_def Let_def)

text \<open>
  Claim C9, as the code has it. For a text with the offset \<^verbatim>\<open>+03:00\<close> (its instant, and
  the one \<^verbatim>\<open>setHours\<close> arrives at, within the range of a \<^verbatim>\<open>Date\<close>), \<^verbatim>\<open>addOneHour\<close>
  moves the local clock of the process one hour on, takes the UTC reading of the instant
  that local time stands for, and labels it \<^verbatim>\<open>+03:00\<close>. The returned text therefore
  denotes the input instant plus one hour, plus the difference between the offset in force
  at the input instant and the offset the new local time is read with, minus three hours.
  When those two offsets are the same (always in a zone of fixed offset), that is the input
  instant minus two hours, not the input instant plus sixty minutes.
\<close>

theorem addOneHour_relabels_utc_reading:
  assumes "designator isoDateTime = Offset 180"
    and "time_value_ok (instant_of isoDateTime)"
    and "time_value_ok (UTC P (LocalTime P (instant_of isoDateTime) + ms_per_hour))"
  shows "\<exists>result. addOneHour P isoDateTime = Inr result
     \<and> designator result = Offset 180
     \<and> reading result
         = instant_of isoDateTime + ms_per_hour
             + (LocalTZA P (instant_of isoDateTime) True
                - LocalTZA P (LocalTime P (instant_of isoDateTime) + ms_per_hour) False)
     \<and> instant_of result = reading result - 3 * ms_per_hour
     \<and> (LocalTZA P (LocalTime P (instant_of isoDateTime) + ms_per_hour) False
           = LocalTZA P (instant_of isoDateTime) True \<longrightarrow>
          reading result = instant_of isoDateTime + ms_per_hour
          \<and> instant_of result = instant_of isoDateTime - 2 * ms_per_hour
          \<and> instant_of result \<noteq> instant_of isoDateTime + 60 * 60000)"
proof -
  have a: "addOneHour P isoDateTime
             = Inr (replace_Z (toISOString
                 (UTC P (LocalTime P (instant_of isoDateTime) + ms_per_hour))))"
    using assms(2) assms(3) by (simp add: addOneHour_def Let_def setHours_next)
  show ?thesis
    unfolding a
    by (simp add: replace_Z_def toISOString_def instant_of_def ms_per_hour_def UTC_def
          LocalTime_def)
qed

theorem addOneHour_relabels_utc_reading_witness:
  "designator \<lparr>reading = 1755698400000, designator = Offset 180\<rparr> = Offset 180
   \<and> instant_of \<lparr>reading = 1755698400000, designator = Offset 180\<rparr> = 1755687600000
   \<and> time_value_ok 1755687600000
   \<and> UTC sample_platform (LocalTime sample_platform 1755687600000 + ms_per_hour) = 1755691200000
   \<and> time_value_ok 1755691200000
   \<and> LocalTZA sample_platform
        (LocalTime sample_platform 1755687600000 + ms_per_hour) False
       = LocalTZA sample_platform 1755687600000 True
   \<and> addOneHour sample_platform \<lparr>reading = 1755698400000, designator = Offset 180\<rparr>
        = Inr \<lparr>reading = 1755691200000, designator = Offset 180\<rparr>
   \<and> instant_of \<lparr>reading = 1755691200000, designator = Offset 180\<rparr> = 1755680400000"
  using addOneHour_relabels_utc_reading[of "\<lparr>reading = 1755698400000, designator = Offset 180\<rparr>"
          sample_platform]
  by (simp add: instant_of_def ms_per_hour_def addOneHour_def Let_def setHours_def getHours_def
        replace_Z_def toISOString_def ms_per_day_def UTC_def LocalTime_def sample_platform_def
        time_value_ok_def)

text \<open>
  Claim C9 as stated fails when the process runs in a zone with daylight saving. In
  \<^verbatim>\<open>Asia/Jerusalem\<close> the text \<^verbatim>\<open>2025-10-26T01:30:00+03:00\<close> is half an hour before the
  clocks go back: \<^verbatim>\<open>getHours()\<close> is 1, and 02:30 of that day, which \<^verbatim>\<open>setHours(2)\<close>
  asks for, is two hours later. The returned text \<^verbatim>\<open>2025-10-26T00:30:00.000+03:00\<close>
  denotes the input instant minus one hour, not minus two.
\<close>

theorem addOneHour_fall_back_counterexample:
  "instant_of \<lparr>reading = 1761442200000, designator = Offset 180\<rparr> = 1761431400000
   \<and> getHours jerusalem_platform 1761431400000 = 1
   \<and> setHours jerusalem_platform 1761431400000 2 = 1761431400000 + 2 * 3600000
   \<and> addOneHour jerusalem_platform \<lparr>reading = 1761442200000, designator = Offset 180\<rparr>
        = Inr \<lparr>reading = 1761438600000, designator = Offset 180\<rparr>
   \<and> instant_of \<lparr>reading = 1761438600000, designator = Offset 180\<rparr> = 1761431400000 - 3600000
   \<and> instant_of \<lparr>reading = 1761438600000, designator = Offset 180\<rparr>
        \<noteq> 1761431400000 - 2 * 3600000"
proof -
  have i: "instant_of \<lparr>reading = 1761442200000, designator = Offset 180\<rparr> = 1761431400000"
    by (simp add: instant_of_def)
  have lt: "LocalTime jerusalem_platform 1761431400000 = 1761442200000"
    by (simp add: LocalTime_def jerusalem_platform_def)
  have gh: "getHours jerusalem_platform 1761431400000 = 1"
    unfolding getHours_def lt by (simp add: ms_per_hour_def)
  have sh: "setHours jerusalem_platform 1761431400000 2 = 1761438600000"
    unfolding setHours_def lt
    by (simp add: UTC_def jerusalem_platform_def ms_per_day_def ms_per_hour_def)
  have a: "addOneHour jerusalem_platform \<lparr>reading = 1761442200000, designator = Offset 180\<rparr>
        = Inr \<lparr>reading = 1761438600000, designator = Offset 180\<rparr>"
    unfolding addOneHour_def i Let_def gh
    by (simp add: sh time_value_ok_def replace_Z_def toISOString_def)
  show ?thesis using i gh sh a by (simp add: instant_of_def)
qed

end
